theory Spec2Isabelle
  imports Main "HOL-Library.Word" "HOL-Library.Signed_Division"
begin

unbundle bit_operations_syntax

section \<open>Machine types and constants\<close>

text \<open>
  The drivers are C code for the Linux kernel. \<open>u8\<close> is an 8-bit register value, a C
  \<open>int\<close> is a 32-bit two's complement word. Return codes (\<open>int err\<close>, \<open>ssize_t\<close>) are
  never computed with, so they are mathematical integers: 0 is success, a negative number
  is \<open>-errno\<close>.
\<close>

type_synonym u8 = "8 word"
type_synonym u16 = "16 word"
type_synonym u32 = "32 word"
type_synonym c_int = "32 word"

definition EINVAL :: int where "EINVAL = 22"
definition ERANGE :: int where "ERANGE = 34"
definition ENODEV :: int where "ENODEV = 19"
definition ENOMEM :: int where "ENOMEM = 12"
definition EOPNOTSUPP :: int where "EOPNOTSUPP = 95"

text \<open>\<open>BIT(n)\<close> and \<open>GENMASK(h, l)\<close> of \<open>linux/bits.h\<close>.\<close>

definition BIT :: "nat \<Rightarrow> 'a::len word" where
  "BIT n = push_bit n 1"

definition GENMASK :: "nat \<Rightarrow> nat \<Rightarrow> 'a::len word" where
  "GENMASK h l = push_bit l (mask (h + 1 - l))"

definition MASK3BITS :: "'a::len word" where "MASK3BITS = GENMASK 2 0"
definition MASK4BITS :: "'a::len word" where "MASK4BITS = GENMASK 3 0"
definition MASK5BITS :: "'a::len word" where "MASK5BITS = GENMASK 4 0"
definition MASK6BITS :: "'a::len word" where "MASK6BITS = GENMASK 5 0"
definition MASK7BITS :: "'a::len word" where "MASK7BITS = GENMASK 6 0"

definition CENTURY_LEN :: c_int where "CENTURY_LEN = 100"
definition MONTH_OFFSET :: c_int where "MONTH_OFFSET = 1"

definition MILLI_DEGREE_CELCIUS :: int where "MILLI_DEGREE_CELCIUS = 1000"
definition CELCIUS0 :: int where "CELCIUS0 = 369 * MILLI_DEGREE_CELCIUS"
definition CELCIUS0_M :: int where "CELCIUS0_M = 273 * MILLI_DEGREE_CELCIUS"

definition FREQ_OUT_MODE_MAX :: u8 where "FREQ_OUT_MODE_MAX = GENMASK 3 0"

definition ISL_REG_RTC_SC :: u8 where "ISL_REG_RTC_SC = 0x00"
definition ISL_REG_RTC_MN :: u8 where "ISL_REG_RTC_MN = 0x01"
definition ISL_REG_RTC_HR :: u8 where "ISL_REG_RTC_HR = 0x02"
definition ISL_REG_RTC_DT :: u8 where "ISL_REG_RTC_DT = 0x03"
definition ISL_REG_RTC_MO :: u8 where "ISL_REG_RTC_MO = 0x04"
definition ISL_REG_RTC_YR :: u8 where "ISL_REG_RTC_YR = 0x05"
definition ISL_REG_RTC_DW :: u8 where "ISL_REG_RTC_DW = 0x06"
definition ISL_REG_CSR_SR :: u8 where "ISL_REG_CSR_SR = 0x07"
definition ISL_REG_CSR_INT :: u8 where "ISL_REG_CSR_INT = 0x08"
definition ISL_REG_CSR_BETA :: u8 where "ISL_REG_CSR_BETA = 0x0D"
definition ISL_REG_TEMP_TKOL :: u8 where "ISL_REG_TEMP_TKOL = 0x28"
definition ISL_REG_TEMP_TKOM :: u8 where "ISL_REG_TEMP_TKOM = 0x29"

definition ISL_BIT_RTC_HR_MIL :: "'a::len word" where "ISL_BIT_RTC_HR_MIL = BIT 7"
definition ISL_BIT_CSR_SR_OSCF :: "'a::len word" where "ISL_BIT_CSR_SR_OSCF = BIT 7"
definition ISL_BIT_CSR_SR_RTCF :: "'a::len word" where "ISL_BIT_CSR_SR_RTCF = BIT 0"
definition ISL_BIT_CSR_INT_WRTC :: "'a::len word" where "ISL_BIT_CSR_INT_WRTC = BIT 6"
definition ISL_BIT_CSR_INT_FOBATB :: "'a::len word" where "ISL_BIT_CSR_INT_FOBATB = BIT 4"
definition ISL_BIT_CSR_BETA_TSE :: "'a::len word" where "ISL_BIT_CSR_BETA_TSE = BIT 7"
definition ISL_BIT_CSR_BETA_BTSE :: "'a::len word" where "ISL_BIT_CSR_BETA_BTSE = BIT 6"
definition ISL_BIT_CSR_BETA_BTSR :: "'a::len word" where "ISL_BIT_CSR_BETA_BTSR = BIT 5"

section \<open>The register channel\<close>

text \<open>
  The regmap is the drivers' only way to the chip (\<open>reg_bits = 8\<close>, \<open>val_bits = 8\<close>). It is
  an external collaborator, modelled as explicit state: the chip's register file, a
  schedule of transport failures, and the trace of every transaction that was attempted.
  The \<open>k\<close>-th transaction (counting from 0) fails with \<open>-faults k\<close> when \<open>faults k\<close> is not
  0; a failed transaction is recorded in the trace and leaves the register file as it was.
  A bulk transfer and \<open>regmap_update_bits\<close> are one transaction each: they succeed or fail
  as a whole. Reading does not change a register.
\<close>

datatype access =
    Reg_Read u8
  | Reg_Write u8 u8
  | Bulk_Read u8 nat
  | Bulk_Write u8 "u8 list"
  | Update_Bits u8 u8 u8

record regmap =
  regs :: "u8 \<Rightarrow> u8"
  faults :: "nat \<Rightarrow> nat"
  trace :: "access list"

definition next_err :: "regmap \<Rightarrow> int" where
  "next_err rm = - int (faults rm (length (trace rm)))"

definition regmap_read :: "regmap \<Rightarrow> u8 \<Rightarrow> c_int \<Rightarrow> int \<times> c_int \<times> regmap" where
  "regmap_read rm reg val =
     (let err = next_err rm; rm' = rm\<lparr>trace := trace rm @ [Reg_Read reg]\<rparr>
      in if err = 0 then (0, ucast (regs rm reg), rm') else (err, val, rm'))"

definition regmap_write :: "regmap \<Rightarrow> u8 \<Rightarrow> c_int \<Rightarrow> int \<times> regmap" where
  "regmap_write rm reg val =
     (let err = next_err rm; rm' = rm\<lparr>trace := trace rm @ [Reg_Write reg (ucast val)]\<rparr>
      in if err = 0 then (0, rm'\<lparr>regs := (regs rm)(reg := ucast val)\<rparr>) else (err, rm'))"

definition regmap_update_bits :: "regmap \<Rightarrow> u8 \<Rightarrow> u8 \<Rightarrow> u8 \<Rightarrow> int \<times> regmap" where
  "regmap_update_bits rm reg msk val =
     (let err = next_err rm; rm' = rm\<lparr>trace := trace rm @ [Update_Bits reg msk val]\<rparr>
      in if err = 0
         then (0, rm'\<lparr>regs := (regs rm)(reg := (regs rm reg AND NOT msk) OR (val AND msk))\<rparr>)
         else (err, rm'))"

definition regmap_bulk_read :: "regmap \<Rightarrow> u8 \<Rightarrow> u8 list \<Rightarrow> nat \<Rightarrow> int \<times> u8 list \<times> regmap" where
  "regmap_bulk_read rm reg buf n =
     (let err = next_err rm; rm' = rm\<lparr>trace := trace rm @ [Bulk_Read reg n]\<rparr>
      in if err = 0 then (0, map (\<lambda>i. regs rm (reg + of_nat i)) [0..<n], rm')
         else (err, buf, rm'))"

fun store_block :: "(u8 \<Rightarrow> u8) \<Rightarrow> u8 \<Rightarrow> u8 list \<Rightarrow> (u8 \<Rightarrow> u8)" where
  "store_block f reg [] = f"
| "store_block f reg (b # bs) = store_block (f(reg := b)) (reg + 1) bs"

definition regmap_bulk_write :: "regmap \<Rightarrow> u8 \<Rightarrow> u8 list \<Rightarrow> int \<times> regmap" where
  "regmap_bulk_write rm reg buf =
     (let err = next_err rm; rm' = rm\<lparr>trace := trace rm @ [Bulk_Write reg buf]\<rparr>
      in if err = 0 then (0, rm'\<lparr>regs := store_block (regs rm) reg buf\<rparr>) else (err, rm'))"

section \<open>Driver state of rtc-isl12020.c\<close>

record isl12020_status =
  oscf :: bool
  rtcf :: bool
  power_triggers_checked :: bool
  lvdd :: bool
  lbat85 :: bool
  lbat75 :: bool

record isl12020_config =
  freq_out_mode :: u8
  freq_out_bat :: bool
  tse :: bool
  btse :: bool
  btsr :: bool

record isl12020_data =
  regmap :: regmap
  status :: isl12020_status
  config :: isl12020_config

section \<open>Compensation flags: \<open>isl12020_set_beta\<close>\<close>

definition isl12020_set_beta ::
  "isl12020_data \<Rightarrow> bool \<Rightarrow> bool \<Rightarrow> bool \<Rightarrow> int \<times> isl12020_data" where
  "isl12020_set_beta priv tse_arg btse_arg btsr_arg =
     (case regmap_read (regmap priv) ISL_REG_CSR_BETA 0 of (err, val, rm1) \<Rightarrow>
        if err = 0 then
          let val = (if tse_arg then val OR ISL_BIT_CSR_BETA_TSE
                     else val AND NOT ISL_BIT_CSR_BETA_TSE);
              val = (if btse_arg then val OR ISL_BIT_CSR_BETA_BTSE
                     else val AND NOT ISL_BIT_CSR_BETA_BTSE);
              val = (if btsr_arg then val OR ISL_BIT_CSR_BETA_BTSR
                     else val AND NOT ISL_BIT_CSR_BETA_BTSR)
          in case regmap_write rm1 ISL_REG_CSR_BETA val of (err, rm2) \<Rightarrow>
               if err = 0
               then (err, priv\<lparr>regmap := rm2,
                               config := (config priv)\<lparr>tse := tse_arg, btse := btse_arg,
                                                        btsr := btsr_arg\<rparr>\<rparr>)
               else (err, priv\<lparr>regmap := rm2\<rparr>)
        else (err, priv\<lparr>regmap := rm1\<rparr>))"

section \<open>Frequency output: \<open>isl12020_set_freq_out\<close>\<close>

definition isl12020_set_freq_out ::
  "isl12020_data \<Rightarrow> u8 \<Rightarrow> bool \<Rightarrow> int \<times> isl12020_data" where
  "isl12020_set_freq_out priv mode batmode =
     (case regmap_read (regmap priv) ISL_REG_CSR_INT 0 of (err, val, rm1) \<Rightarrow>
        if err = 0 then
          let val = (if batmode then val AND NOT ISL_BIT_CSR_INT_FOBATB
                     else val OR ISL_BIT_CSR_INT_FOBATB);
              val = val AND NOT MASK4BITS;
              val = val OR (ucast mode AND MASK4BITS)
          in case regmap_write rm1 ISL_REG_CSR_INT val of (err, rm2) \<Rightarrow>
               if err = 0
               then (err, priv\<lparr>regmap := rm2,
                               config := (config priv)\<lparr>freq_out_mode := mode,
                                                        freq_out_bat := batmode\<rparr>\<rparr>)
               else (err, priv\<lparr>regmap := rm2\<rparr>)
        else (err, priv\<lparr>regmap := rm1\<rparr>))"

section \<open>Temperature: \<open>isl12020_read_temp\<close>\<close>

text \<open>
  \<open>__le16 buf\<close> is filled by a bulk read of two registers, low byte first. The result
  \<open>long *val\<close> is an output parameter: the function returns the error code together with
  the content of \<open>*val\<close>, which is its prior content when nothing was stored. A \<open>long\<close> is
  a mathematical integer here: the largest value the code can compute is
  \<open>65535 * 500\<close>, inside every width a \<open>long\<close> has.
\<close>

fun le16_to_cpu :: "u8 list \<Rightarrow> u16" where
  "le16_to_cpu (lo # hi # rest) = ucast lo OR push_bit 8 (ucast hi)"
| "le16_to_cpu [lo] = ucast lo"
| "le16_to_cpu [] = 0"

definition isl12020_read_temp :: "isl12020_data \<Rightarrow> int \<Rightarrow> int \<times> int \<times> isl12020_data" where
  "isl12020_read_temp priv val =
     (let err = - EOPNOTSUPP in
      if tse (config priv) then
        case regmap_bulk_read (regmap priv) ISL_REG_TEMP_TKOL [0, 0] 2 of (err, buf, rm1) \<Rightarrow>
          if err = 0 then
            let val = uint (le16_to_cpu buf);
                val = val * (MILLI_DEGREE_CELCIUS div 2);
                val = val - CELCIUS0_M
            in (err, val, priv\<lparr>regmap := rm1\<rparr>)
          else (err, val, priv\<lparr>regmap := rm1\<rparr>)
      else (err, val, priv))"

section \<open>Attribute setters and getters of rtc-isl12020.c\<close>

text \<open>
  \<open>kstrtobool\<close> and \<open>kstrtou8\<close> are kernel library parsers, not part of the drivers: each
  setter takes the parser as a parameter. A parser returns its error code and the parsed
  value (meaningful when the code is 0). \<open>count\<close> is the number of bytes the caller wrote.
\<close>

definition isl12020_tse_store ::
  "(string \<Rightarrow> int \<times> bool) \<Rightarrow> isl12020_data \<Rightarrow> string \<Rightarrow> nat \<Rightarrow> int \<times> isl12020_data" where
  "isl12020_tse_store kstrtobool priv buf count =
     (case kstrtobool buf of (err, val) \<Rightarrow>
        case (if err = 0
              then isl12020_set_beta priv val (btse (config priv)) (btsr (config priv))
              else (err, priv)) of (err, priv') \<Rightarrow>
          (if err \<noteq> 0 then err else int count, priv'))"

definition isl12020_btse_store ::
  "(string \<Rightarrow> int \<times> bool) \<Rightarrow> isl12020_data \<Rightarrow> string \<Rightarrow> nat \<Rightarrow> int \<times> isl12020_data" where
  "isl12020_btse_store kstrtobool priv buf count =
     (case kstrtobool buf of (err, val) \<Rightarrow>
        case (if err = 0
              then isl12020_set_beta priv (tse (config priv)) val (btsr (config priv))
              else (err, priv)) of (err, priv') \<Rightarrow>
          (if err \<noteq> 0 then err else int count, priv'))"

definition isl12020_btsr_store ::
  "(string \<Rightarrow> int \<times> bool) \<Rightarrow> isl12020_data \<Rightarrow> string \<Rightarrow> nat \<Rightarrow> int \<times> isl12020_data" where
  "isl12020_btsr_store kstrtobool priv buf count =
     (case kstrtobool buf of (err, val) \<Rightarrow>
        case (if err = 0
              then isl12020_set_beta priv (tse (config priv)) (btse (config priv)) val
              else (err, priv)) of (err, priv') \<Rightarrow>
          (if err \<noteq> 0 then err else int count, priv'))"

definition isl12020_bat_freq_out_show :: "isl12020_data \<Rightarrow> string" where
  "isl12020_bat_freq_out_show priv =
     [if freq_out_bat (config priv) then CHR ''1'' else CHR ''0'', CHR 0x0A]"

definition isl12020_bat_freq_out_store ::
  "(string \<Rightarrow> int \<times> bool) \<Rightarrow> isl12020_data \<Rightarrow> string \<Rightarrow> nat \<Rightarrow> int \<times> isl12020_data" where
  "isl12020_bat_freq_out_store kstrtobool priv buf count =
     (case kstrtobool buf of (err, val) \<Rightarrow>
        case (if err = 0
              then isl12020_set_freq_out priv (freq_out_mode (config priv)) val
              else (err, priv)) of (err, priv') \<Rightarrow>
          (if err \<noteq> 0 then err else (if val then 1 else 0), priv'))"

definition isl12020_freq_out_store ::
  "(string \<Rightarrow> nat \<Rightarrow> int \<times> u8) \<Rightarrow> isl12020_data \<Rightarrow> string \<Rightarrow> nat \<Rightarrow> int \<times> isl12020_data" where
  "isl12020_freq_out_store kstrtou8 priv buf count =
     (case kstrtou8 buf 10 of (err, val) \<Rightarrow>
        case (if err = 0
              then (if val \<le> FREQ_OUT_MODE_MAX
                    then isl12020_set_freq_out priv val (freq_out_bat (config priv))
                    else (- ERANGE, priv))
              else (err, priv)) of (err, priv') \<Rightarrow>
          (if err \<noteq> 0 then err else int count, priv'))"

section \<open>Time registers: \<open>isl12020_rtc_ops_read_time\<close> and \<open>isl12020_rtc_ops_set_time\<close>\<close>

text \<open>
  Modelled from the spec: \<open>bcd2bin\<close> and \<open>bin2bcd\<close> come from \<open>linux/bcd.h\<close>, which is not
  among the sources. Packed decimal stores each decimal digit of a value in its own
  4-bit nibble: \<open>bin2bcd\<close> puts the tens into the high nibble and the units into the low
  one and returns an \<open>unsigned char\<close>, \<open>bcd2bin\<close> is ten times the high nibble plus the
  low one.
\<close>

text \<open>C's \<open>%\<close> on \<open>int\<close> truncates towards zero: the remainder has the sign of the dividend.\<close>

definition c_rem :: "c_int \<Rightarrow> c_int \<Rightarrow> c_int" where
  "c_rem a b = word_of_int (sint a smod sint b)"

definition bcd2bin :: "u8 \<Rightarrow> u32" where
  "bcd2bin val = (ucast val AND 0x0f) + drop_bit 4 (ucast val) * 10"

definition bin2bcd :: "u32 \<Rightarrow> u8" where
  "bin2bcd val = ucast (push_bit 4 (val div 10) + val mod 10)"

record rtc_time =
  tm_sec :: c_int
  tm_min :: c_int
  tm_hour :: c_int
  tm_mday :: c_int
  tm_mon :: c_int
  tm_year :: c_int
  tm_wday :: c_int
  tm_yday :: c_int
  tm_isdst :: c_int

definition isl12020_rtc_ops_read_time ::
  "isl12020_data \<Rightarrow> rtc_time \<Rightarrow> int \<times> rtc_time \<times> isl12020_data" where
  "isl12020_rtc_ops_read_time priv tm =
     (case regmap_bulk_read (regmap priv) ISL_REG_RTC_SC (replicate 9 0)
             (unat ISL_REG_CSR_INT + 1) of (err, regmap_buf, rm1) \<Rightarrow>
        if err < 0 then (err, tm, priv\<lparr>regmap := rm1\<rparr>)
        else
          (0,
           tm\<lparr>tm_sec := bcd2bin (regmap_buf ! unat ISL_REG_RTC_SC AND MASK7BITS),
              tm_min := bcd2bin (regmap_buf ! unat ISL_REG_RTC_MN AND MASK7BITS),
              tm_hour := bcd2bin (regmap_buf ! unat ISL_REG_RTC_HR AND MASK6BITS),
              tm_mday := bcd2bin (regmap_buf ! unat ISL_REG_RTC_DT AND MASK6BITS),
              tm_mon := bcd2bin (regmap_buf ! unat ISL_REG_RTC_MO AND MASK5BITS) - MONTH_OFFSET,
              tm_year := bcd2bin (regmap_buf ! unat ISL_REG_RTC_YR) + CENTURY_LEN,
              tm_wday := ucast (regmap_buf ! unat ISL_REG_RTC_DW AND MASK3BITS)\<rparr>,
           priv\<lparr>regmap := rm1\<rparr>))"

definition isl12020_rtc_ops_set_time ::
  "isl12020_data \<Rightarrow> rtc_time \<Rightarrow> int \<times> isl12020_data" where
  "isl12020_rtc_ops_set_time priv tm =
     (case regmap_update_bits (regmap priv) ISL_REG_CSR_INT ISL_BIT_CSR_INT_WRTC
             ISL_BIT_CSR_INT_WRTC of (err, rm1) \<Rightarrow>
        if err < 0 then (err, priv\<lparr>regmap := rm1\<rparr>)
        else
          let regmap_buf =
                [bin2bcd (tm_sec tm),
                 bin2bcd (tm_min tm),
                 bin2bcd (tm_hour tm) OR ISL_BIT_RTC_HR_MIL,
                 bin2bcd (tm_mday tm),
                 bin2bcd (tm_mon tm + MONTH_OFFSET),
                 bin2bcd (c_rem (tm_year tm) CENTURY_LEN),
                 ucast (tm_wday tm AND MASK3BITS)]
          in case regmap_bulk_write rm1 ISL_REG_RTC_SC regmap_buf of (err, rm2) \<Rightarrow>
               (err, priv\<lparr>regmap := rm2\<rparr>))"

section \<open>Binding the device: \<open>isl12020_probe\<close>\<close>

text \<open>
  What the kernel answers during \<open>probe\<close> is collected in one record: whether the adapter
  has \<open>I2C_FUNC_I2C\<close>, whether \<open>devm_kzalloc\<close> returned memory, the error codes of the
  framework calls (0 for success; for the calls that return a pointer, the \<open>PTR_ERR\<close> of
  an error pointer), the startup configuration (which device properties are present, and
  the integer value of those that have one), and the channel as the driver finds it.
  \<open>devm_kzalloc\<close> returns zeroed memory: every flag false, every number 0.
\<close>

record probe_env =
  i2c_check_functionality :: bool
  devm_kzalloc_ok :: bool
  devm_regmap_init_i2c_err :: int
  devm_rtc_allocate_device_err :: int
  sysfs_create_files_err :: int
  hwmon_device_register_err :: int
  device_property_present :: "string \<Rightarrow> bool"
  device_property_read_u32 :: "string \<Rightarrow> u32 option"
  device_property_read_u8 :: "string \<Rightarrow> u8 option"
  devm_rtc_register_device_err :: int
  chip :: regmap

definition kzalloc_isl12020_data :: "regmap \<Rightarrow> isl12020_data" where
  "kzalloc_isl12020_data rm =
     \<lparr>regmap = rm,
      status = \<lparr>oscf = False, rtcf = False, power_triggers_checked = False, lvdd = False,
                lbat85 = False, lbat75 = False\<rparr>,
      config = \<lparr>freq_out_mode = 0, freq_out_bat = False, tse = False, btse = False,
                btsr = False\<rparr>\<rparr>"

definition isl12020_probe :: "probe_env \<Rightarrow> int + isl12020_data" where
  "isl12020_probe env =
     (if \<not> i2c_check_functionality env then Inl (- ENODEV)
      else if \<not> devm_kzalloc_ok env then Inl (- ENOMEM)
      else if devm_regmap_init_i2c_err env \<noteq> 0 then Inl (devm_regmap_init_i2c_err env)
      else if devm_rtc_allocate_device_err env \<noteq> 0
        then Inl (devm_rtc_allocate_device_err env)
      else if sysfs_create_files_err env \<noteq> 0 then Inl (sysfs_create_files_err env)
      else
        let priv = kzalloc_isl12020_data (chip env) in
        case regmap_read (regmap priv) ISL_REG_CSR_SR 0 of (err, initial_state, rm1) \<Rightarrow>
          if err \<noteq> 0 then Inl err
          else
            let priv = priv\<lparr>regmap := rm1\<rparr>;
                priv = (if initial_state AND ISL_BIT_CSR_SR_OSCF \<noteq> 0
                        then priv\<lparr>status := (status priv)\<lparr>oscf := True\<rparr>\<rparr> else priv);
                priv = (if initial_state AND ISL_BIT_CSR_SR_RTCF \<noteq> 0
                        then priv\<lparr>status := (status priv)\<lparr>rtcf := True\<rparr>\<rparr> else priv);
                priv = (if device_property_present env ''temperature-sensor-enable''
                        then snd (isl12020_set_beta priv True (btse (config priv))
                                    (btsr (config priv)))
                        else priv);
                priv = (if device_property_present env ''battery-temperature-sensor-enable''
                        then snd (isl12020_set_beta priv (tse (config priv)) True
                                    (btsr (config priv)))
                        else priv);
                priv = (if device_property_present env ''high-sensing-frequency-enable''
                        then snd (isl12020_set_beta priv (tse (config priv))
                                    (btse (config priv)) True)
                        else priv);
                freq_out_bat_arg =
                  (if device_property_present env ''battery-frequency-output-enable''
                   then True else False);
                freq_out_mode_arg =
                  (case device_property_read_u32 env ''frequency-output-mode'' of
                     Some v \<Rightarrow> v | None \<Rightarrow> 0);
                priv = snd (isl12020_set_freq_out priv (ucast freq_out_mode_arg)
                              freq_out_bat_arg)
            in if devm_rtc_register_device_err env = 0 then Inr priv
               else Inl (devm_rtc_register_device_err env))"

section \<open>The driver of rtc-isl12020m.c\<close>

text \<open>
  The isl12020m driver keeps its flags directly in \<open>struct isl12020m_data\<close>; its fields
  carry the prefix \<open>m_\<close> here, and the two macros it defines with other values than
  rtc-isl12020.c carry the driver's name.
\<close>

definition CELCIUS0_isl12020m :: int where
  "CELCIUS0_isl12020m = 273 * MILLI_DEGREE_CELCIUS"

definition FREQ_OUT_MODE_MAX_isl12020m :: u8 where
  "FREQ_OUT_MODE_MAX_isl12020m = GENMASK 4 0"

record isl12020m_data =
  m_regmap :: regmap
  m_freq_out_mode :: u8
  m_freq_out :: bool
  m_oscf :: bool
  m_rtcf :: bool
  m_tse :: bool
  m_btse :: bool
  m_btsr :: bool

definition isl12020m_beta ::
  "isl12020m_data \<Rightarrow> bool \<Rightarrow> bool \<Rightarrow> bool \<Rightarrow> int \<times> isl12020m_data" where
  "isl12020m_beta priv tse_arg btse_arg btsr_arg =
     (case regmap_read (m_regmap priv) ISL_REG_CSR_BETA 0 of (err, val, rm1) \<Rightarrow>
        if err = 0 then
          let val = (if tse_arg then val OR ISL_BIT_CSR_BETA_TSE
                     else val AND NOT ISL_BIT_CSR_BETA_TSE);
              val = (if btse_arg then val OR ISL_BIT_CSR_BETA_BTSE
                     else val AND NOT ISL_BIT_CSR_BETA_BTSE);
              val = (if btsr_arg then val OR ISL_BIT_CSR_BETA_BTSR
                     else val AND NOT ISL_BIT_CSR_BETA_BTSR)
          in case regmap_write rm1 ISL_REG_CSR_BETA val of (err, rm2) \<Rightarrow>
               if err = 0
               then (err, priv\<lparr>m_regmap := rm2, m_tse := tse_arg, m_btse := btse_arg,
                               m_btsr := btsr_arg\<rparr>)
               else (err, priv\<lparr>m_regmap := rm2\<rparr>)
        else (err, priv\<lparr>m_regmap := rm1\<rparr>))"

definition isl12020m_read_temp :: "isl12020m_data \<Rightarrow> int \<Rightarrow> int \<times> int \<times> isl12020m_data" where
  "isl12020m_read_temp priv val =
     (if m_tse priv then
        case regmap_bulk_read (m_regmap priv) ISL_REG_TEMP_TKOL [0, 0] 2 of (err, buf, rm1) \<Rightarrow>
          if err = 0 then
            let val = uint (le16_to_cpu buf);
                val = val * (MILLI_DEGREE_CELCIUS div 2);
                val = val - CELCIUS0_isl12020m
            in (err, val, priv\<lparr>m_regmap := rm1\<rparr>)
          else (err, val, priv\<lparr>m_regmap := rm1\<rparr>)
      else (- EOPNOTSUPP, val, priv))"

text \<open>
  \<open>isl12020m_tse_store\<close> parses with \<open>sscanf(buf, "%hhu", &val)\<close> into a local that it does
  not initialise: the parser is a parameter that maps the buffer and the prior content of
  \<open>val\<close> to its new content, and the indeterminate prior content is the parameter
  \<open>val0\<close>.
\<close>

definition isl12020m_tse_store ::
  "(string \<Rightarrow> u8 \<Rightarrow> u8) \<Rightarrow> u8 \<Rightarrow> isl12020m_data \<Rightarrow> string \<Rightarrow> nat \<Rightarrow> int \<times> isl12020m_data" where
  "isl12020m_tse_store sscanf_hhu val0 priv buf count =
     (let val = sscanf_hhu buf val0;
          priv' = (if val \<noteq> 0
                   then snd (isl12020m_beta priv True (m_btse priv) (m_btsr priv))
                   else snd (isl12020m_beta priv False (m_btse priv) (m_btsr priv)))
      in (int count, priv'))"

definition isl12020m_set_freq_out ::
  "isl12020m_data \<Rightarrow> u8 \<Rightarrow> bool \<Rightarrow> int \<times> isl12020m_data" where
  "isl12020m_set_freq_out priv mode enable =
     (case regmap_read (m_regmap priv) ISL_REG_CSR_INT 0 of (err, val, rm1) \<Rightarrow>
        if err = 0 then
          let val = (if enable then val OR ISL_BIT_CSR_INT_FOBATB
                     else val AND NOT ISL_BIT_CSR_INT_FOBATB);
              val = val AND NOT MASK4BITS;
              val = val OR (ucast mode AND MASK4BITS)
          in case regmap_write rm1 ISL_REG_CSR_INT val of (err, rm2) \<Rightarrow>
               if err = 0
               then (err, priv\<lparr>m_regmap := rm2, m_freq_out_mode := mode,
                               m_freq_out := enable\<rparr>)
               else (err, priv\<lparr>m_regmap := rm2\<rparr>)
        else (err, priv\<lparr>m_regmap := rm1\<rparr>))"

definition kzalloc_isl12020m_data :: "regmap \<Rightarrow> isl12020m_data" where
  "kzalloc_isl12020m_data rm =
     \<lparr>m_regmap = rm, m_freq_out_mode = 0, m_freq_out = False, m_oscf = False,
      m_rtcf = False, m_tse = False, m_btse = False, m_btsr = False\<rparr>"

definition isl12020m_probe :: "probe_env \<Rightarrow> int + isl12020m_data" where
  "isl12020m_probe env =
     (if \<not> i2c_check_functionality env then Inl (- ENODEV)
      else if \<not> devm_kzalloc_ok env then Inl (- ENOMEM)
      else if devm_regmap_init_i2c_err env \<noteq> 0 then Inl (devm_regmap_init_i2c_err env)
      else if devm_rtc_allocate_device_err env \<noteq> 0
        then Inl (devm_rtc_allocate_device_err env)
      else if sysfs_create_files_err env \<noteq> 0 then Inl (sysfs_create_files_err env)
      else
        let priv = kzalloc_isl12020m_data (chip env) in
        case regmap_read (m_regmap priv) ISL_REG_CSR_SR 0 of (err, initial_state, rm1) \<Rightarrow>
          if err \<noteq> 0 then Inl err
          else
            let priv = priv\<lparr>m_regmap := rm1\<rparr>;
                priv = (if initial_state AND ISL_BIT_CSR_SR_OSCF \<noteq> 0
                        then priv\<lparr>m_oscf := True\<rparr> else priv);
                priv = (if initial_state AND ISL_BIT_CSR_SR_RTCF \<noteq> 0
                        then priv\<lparr>m_rtcf := True\<rparr> else priv);
                priv = (if device_property_present env ''temperature-sensor-enabled''
                        then snd (isl12020m_beta priv True (m_btse priv) (m_btsr priv))
                        else priv);
                priv = (if device_property_present env ''battery-temperature-sensor-enabled''
                        then snd (isl12020m_beta priv (m_tse priv) True (m_btsr priv))
                        else priv);
                priv = (if device_property_present env ''high-sensing-frequency''
                        then snd (isl12020m_beta priv (m_tse priv) (m_btse priv) True)
                        else priv);
                freq_out_arg =
                  (if device_property_present env ''frequency-output-enable''
                   then True else False);
                freq_out_mode_arg =
                  (case device_property_read_u8 env ''frequency-output-mode'' of
                     Some v \<Rightarrow> v | None \<Rightarrow> 1);
                priv = snd (isl12020m_set_freq_out priv freq_out_mode_arg freq_out_arg)
            in if devm_rtc_register_device_err env = 0 then Inr priv
               else Inl (devm_rtc_register_device_err env))"

section \<open>Notions used in the statements\<close>

text \<open>
  \<open>fault_at rm j\<close> is the errno with which the \<open>j\<close>-th transaction from now on fails (0
  when it succeeds). \<open>beta_value\<close> and \<open>int_value\<close> name the byte that
  \<open>isl12020_set_beta\<close> and \<open>isl12020_set_freq_out\<close> compute from the byte they read;
  \<open>int_value_m\<close> is the one of \<open>isl12020m_set_freq_out\<close>.
\<close>

definition fault_at :: "regmap \<Rightarrow> nat \<Rightarrow> nat" where
  "fault_at rm j = faults rm (length (trace rm) + j)"

definition beta_value :: "u8 \<Rightarrow> bool \<Rightarrow> bool \<Rightarrow> bool \<Rightarrow> u8" where
  "beta_value old tse_arg btse_arg btsr_arg =
     (let val = (ucast old :: c_int);
          val = (if tse_arg then val OR ISL_BIT_CSR_BETA_TSE
                 else val AND NOT ISL_BIT_CSR_BETA_TSE);
          val = (if btse_arg then val OR ISL_BIT_CSR_BETA_BTSE
                 else val AND NOT ISL_BIT_CSR_BETA_BTSE);
          val = (if btsr_arg then val OR ISL_BIT_CSR_BETA_BTSR
                 else val AND NOT ISL_BIT_CSR_BETA_BTSR)
      in ucast val)"

definition int_value :: "u8 \<Rightarrow> u8 \<Rightarrow> bool \<Rightarrow> u8" where
  "int_value old mode batmode =
     (let val = (ucast old :: c_int);
          val = (if batmode then val AND NOT ISL_BIT_CSR_INT_FOBATB
                 else val OR ISL_BIT_CSR_INT_FOBATB);
          val = val AND NOT MASK4BITS;
          val = val OR (ucast mode AND MASK4BITS)
      in ucast val)"

definition int_value_m :: "u8 \<Rightarrow> u8 \<Rightarrow> bool \<Rightarrow> u8" where
  "int_value_m old mode enable =
     (let val = (ucast old :: c_int);
          val = (if enable then val OR ISL_BIT_CSR_INT_FOBATB
                 else val AND NOT ISL_BIT_CSR_INT_FOBATB);
          val = val AND NOT MASK4BITS;
          val = val OR (ucast mode AND MASK4BITS)
      in ucast val)"

text \<open>
  A C \<open>int\<close> lies in a range when its signed value does. \<open>valid_time\<close> is the domain of
  the round trip: \<open>tm_year\<close> counts from 1900, so the years 2000 to 2099 are 100 to 199,
  and \<open>tm_mon\<close> is zero-based.
\<close>

definition in_range :: "c_int \<Rightarrow> int \<Rightarrow> int \<Rightarrow> bool" where
  "in_range x lo hi = (lo \<le> sint x \<and> sint x \<le> hi)"

definition valid_time :: "rtc_time \<Rightarrow> bool" where
  "valid_time t =
     (in_range (tm_sec t) 0 59 \<and> in_range (tm_min t) 0 59 \<and> in_range (tm_hour t) 0 23 \<and>
      in_range (tm_mday t) 1 31 \<and> in_range (tm_mon t) 0 11 \<and>
      in_range (tm_year t) 100 199 \<and> in_range (tm_wday t) 0 6)"

text \<open>
  Concrete channels for the examples: a chip whose registers are all 0 and whose
  transactions all succeed, the same chip with given register contents, and the same chip
  failing its \<open>k\<close>-th transaction with \<open>EIO\<close> (5).
\<close>

definition quiet_chip :: regmap where
  "quiet_chip = \<lparr>regs = (\<lambda>r. 0), faults = (\<lambda>k. 0), trace = []\<rparr>"

definition chip_with :: "(u8 \<times> u8) list \<Rightarrow> regmap" where
  "chip_with kvs = quiet_chip\<lparr>regs := (\<lambda>r. case map_of kvs r of Some v \<Rightarrow> v | None \<Rightarrow> 0)\<rparr>"

definition failing_chip :: "nat \<Rightarrow> regmap" where
  "failing_chip k = quiet_chip\<lparr>faults := (\<lambda>j. if j = k then 5 else 0)\<rparr>"

definition no_config_env :: probe_env where
  "no_config_env =
     \<lparr>i2c_check_functionality = True, devm_kzalloc_ok = True, devm_regmap_init_i2c_err = 0,
      devm_rtc_allocate_device_err = 0, sysfs_create_files_err = 0,
      hwmon_device_register_err = 0, device_property_present = (\<lambda>name. False),
      device_property_read_u32 = (\<lambda>name. None), device_property_read_u8 = (\<lambda>name. None),
      devm_rtc_register_device_err = 0, chip = quiet_chip\<rparr>"

section \<open>Bits, masks and the example channels\<close>

lemma BIT_bit: "bit (BIT k :: 'a::len word) n = (n = k \<and> k < LENGTH('a))"
  by (auto simp: BIT_def bit_simps)

lemma bit_u8_bound: "bit (w :: u8) n \<Longrightarrow> n < 8"
  using bit_imp_le_length [of w n] by simp

lemma MASK_values:
  "(MASK3BITS :: 'a::len word) = mask 3" "(MASK4BITS :: 'a::len word) = mask 4"
  "(MASK5BITS :: 'a::len word) = mask 5" "(MASK6BITS :: 'a::len word) = mask 6"
  "(MASK7BITS :: 'a::len word) = mask 7"
  by (simp_all add: MASK3BITS_def MASK4BITS_def MASK5BITS_def MASK6BITS_def MASK7BITS_def
      GENMASK_def)

lemma fault_at_examples:
  "fault_at quiet_chip j = 0"
  "fault_at (chip_with kvs) j = 0"
  "fault_at (failing_chip k) j = (if j = k then 5 else 0)"
  by (simp_all add: fault_at_def quiet_chip_def chip_with_def failing_chip_def)

lemma kzalloc_regmap:
  "regmap (kzalloc_isl12020_data rm) = rm"
  "m_regmap (kzalloc_isl12020m_data rm) = rm"
  by (simp_all add: kzalloc_isl12020_data_def kzalloc_isl12020m_data_def)

section \<open>The compensation register\<close>

text \<open>
  The byte that \<open>isl12020_set_beta\<close> writes has bits 7, 6 and 5 as requested and every
  other bit as read.
\<close>

lemma bit_beta_value:
  "bit (beta_value old t b r) n =
     (if n = 7 then t else if n = 6 then b else if n = 5 then r else bit old n)"
  unfolding beta_value_def Let_def
    ISL_BIT_CSR_BETA_TSE_def ISL_BIT_CSR_BETA_BTSE_def ISL_BIT_CSR_BETA_BTSR_def
  by (auto simp: bit_simps BIT_bit dest: bit_u8_bound)

text \<open>The three ways \<open>isl12020_set_beta\<close> can end: read fails, write fails, both succeed.\<close>

lemma set_beta_cases:
  "isl12020_set_beta priv t b r =
    (let rm = regmap priv; v = beta_value (regs rm ISL_REG_CSR_BETA) t b r in
     if fault_at rm 0 \<noteq> 0 then
       (- int (fault_at rm 0),
        priv\<lparr>regmap := rm\<lparr>trace := trace rm @ [Reg_Read ISL_REG_CSR_BETA]\<rparr>\<rparr>)
     else if fault_at rm 1 \<noteq> 0 then
       (- int (fault_at rm 1),
        priv\<lparr>regmap := rm\<lparr>trace := trace rm @
                 [Reg_Read ISL_REG_CSR_BETA, Reg_Write ISL_REG_CSR_BETA v]\<rparr>\<rparr>)
     else
       (0, priv\<lparr>regmap := rm\<lparr>trace := trace rm @
                    [Reg_Read ISL_REG_CSR_BETA, Reg_Write ISL_REG_CSR_BETA v],
                  regs := (regs rm)(ISL_REG_CSR_BETA := v)\<rparr>,
                config := (config priv)\<lparr>tse := t, btse := b, btsr := r\<rparr>\<rparr>))"
  unfolding isl12020_set_beta_def regmap_read_def regmap_write_def Let_def beta_value_def
    next_err_def fault_at_def
  by (simp split: prod.splits)

lemma m_beta_cases:
  "isl12020m_beta priv t b r =
    (let rm = m_regmap priv; v = beta_value (regs rm ISL_REG_CSR_BETA) t b r in
     if fault_at rm 0 \<noteq> 0 then
       (- int (fault_at rm 0),
        priv\<lparr>m_regmap := rm\<lparr>trace := trace rm @ [Reg_Read ISL_REG_CSR_BETA]\<rparr>\<rparr>)
     else if fault_at rm 1 \<noteq> 0 then
       (- int (fault_at rm 1),
        priv\<lparr>m_regmap := rm\<lparr>trace := trace rm @
                 [Reg_Read ISL_REG_CSR_BETA, Reg_Write ISL_REG_CSR_BETA v]\<rparr>\<rparr>)
     else
       (0, priv\<lparr>m_regmap := rm\<lparr>trace := trace rm @
                    [Reg_Read ISL_REG_CSR_BETA, Reg_Write ISL_REG_CSR_BETA v],
                  regs := (regs rm)(ISL_REG_CSR_BETA := v)\<rparr>,
                m_tse := t, m_btse := b, m_btsr := r\<rparr>))"
  unfolding isl12020m_beta_def regmap_read_def regmap_write_def Let_def beta_value_def
    next_err_def fault_at_def
  by (simp split: prod.splits)

text \<open>
  C4. Setting the compensation flags is atomic with respect to failure, in
  \<open>isl12020_set_beta\<close> and in \<open>isl12020m_beta\<close> alike. When the read of the BETA register
  fails, the error is returned, the read is the only transaction on the channel (no write
  is attempted), and the register file and the stored configuration are as before. When
  the read succeeds and the write fails, the error is returned and the three stored flags
  keep their prior values. When both succeed, 0 is returned and the three stored flags
  are the requested ones. So the stored flags change on success only, and then together.
\<close>

theorem set_beta_failure_atomic:
  fixes priv :: isl12020_data and privm :: isl12020m_data
  assumes "isl12020_set_beta priv t b r = (err, priv')"
    and "isl12020m_beta privm t b r = (errm, privm')"
  shows
    "(fault_at (regmap priv) 0 \<noteq> 0 \<longrightarrow>
        err = - int (fault_at (regmap priv) 0) \<and>
        regmap priv' =
          (regmap priv)\<lparr>trace := trace (regmap priv) @ [Reg_Read ISL_REG_CSR_BETA]\<rparr> \<and>
        config priv' = config priv) \<and>
     (fault_at (regmap priv) 0 = 0 \<and> fault_at (regmap priv) 1 \<noteq> 0 \<longrightarrow>
        err = - int (fault_at (regmap priv) 1) \<and> config priv' = config priv) \<and>
     (fault_at (regmap priv) 0 = 0 \<and> fault_at (regmap priv) 1 = 0 \<longrightarrow>
        err = 0 \<and> config priv' = (config priv)\<lparr>tse := t, btse := b, btsr := r\<rparr>) \<and>
     (err \<noteq> 0 \<longrightarrow> config priv' = config priv) \<and>
     (fault_at (m_regmap privm) 0 \<noteq> 0 \<longrightarrow>
        errm = - int (fault_at (m_regmap privm) 0) \<and>
        privm' = privm\<lparr>m_regmap := (m_regmap privm)\<lparr>trace := trace (m_regmap privm) @
                                                     [Reg_Read ISL_REG_CSR_BETA]\<rparr>\<rparr>) \<and>
     (fault_at (m_regmap privm) 0 = 0 \<and> fault_at (m_regmap privm) 1 \<noteq> 0 \<longrightarrow>
        errm = - int (fault_at (m_regmap privm) 1) \<and>
        m_tse privm' = m_tse privm \<and> m_btse privm' = m_btse privm \<and>
        m_btsr privm' = m_btsr privm) \<and>
     (fault_at (m_regmap privm) 0 = 0 \<and> fault_at (m_regmap privm) 1 = 0 \<longrightarrow>
        errm = 0 \<and> m_tse privm' = t \<and> m_btse privm' = b \<and> m_btsr privm' = r) \<and>
     (errm \<noteq> 0 \<longrightarrow>
        m_tse privm' = m_tse privm \<and> m_btse privm' = m_btse privm \<and>
        m_btsr privm' = m_btsr privm)"
proof -
  have a: "fault_at (regmap priv) 0 \<noteq> 0 \<longrightarrow>
        err = - int (fault_at (regmap priv) 0) \<and>
        regmap priv' =
          (regmap priv)\<lparr>trace := trace (regmap priv) @ [Reg_Read ISL_REG_CSR_BETA]\<rparr> \<and>
        config priv' = config priv"
    using assms(1) by (auto simp: set_beta_cases Let_def)
  have b: "fault_at (regmap priv) 0 = 0 \<and> fault_at (regmap priv) 1 \<noteq> 0 \<longrightarrow>
        err = - int (fault_at (regmap priv) 1) \<and> config priv' = config priv"
    using assms(1) by (auto simp: set_beta_cases Let_def)
  have c: "fault_at (regmap priv) 0 = 0 \<and> fault_at (regmap priv) 1 = 0 \<longrightarrow>
        err = 0 \<and> config priv' = (config priv)\<lparr>tse := t, btse := b, btsr := r\<rparr>"
    using assms(1) by (auto simp: set_beta_cases Let_def)
  have d: "err \<noteq> 0 \<longrightarrow> config priv' = config priv"
    using assms(1) by (auto simp: set_beta_cases Let_def split: if_splits)
  have am: "fault_at (m_regmap privm) 0 \<noteq> 0 \<longrightarrow>
        errm = - int (fault_at (m_regmap privm) 0) \<and>
        privm' = privm\<lparr>m_regmap := (m_regmap privm)\<lparr>trace := trace (m_regmap privm) @
                                                     [Reg_Read ISL_REG_CSR_BETA]\<rparr>\<rparr>"
    using assms(2) by (auto simp: m_beta_cases Let_def)
  have bm: "fault_at (m_regmap privm) 0 = 0 \<and> fault_at (m_regmap privm) 1 \<noteq> 0 \<longrightarrow>
        errm = - int (fault_at (m_regmap privm) 1) \<and>
        m_tse privm' = m_tse privm \<and> m_btse privm' = m_btse privm \<and>
        m_btsr privm' = m_btsr privm"
    using assms(2) by (auto simp: m_beta_cases Let_def)
  have cm: "fault_at (m_regmap privm) 0 = 0 \<and> fault_at (m_regmap privm) 1 = 0 \<longrightarrow>
        errm = 0 \<and> m_tse privm' = t \<and> m_btse privm' = b \<and> m_btsr privm' = r"
    using assms(2) by (auto simp: m_beta_cases Let_def)
  have dm: "errm \<noteq> 0 \<longrightarrow>
        m_tse privm' = m_tse privm \<and> m_btse privm' = m_btse privm \<and>
        m_btsr privm' = m_btsr privm"
    using assms(2) by (auto simp: m_beta_cases Let_def split: if_splits)
  from a b c d am bm cm dm show ?thesis by blast
qed

text \<open>
  The three outcomes on concrete channels: one that fails its first transaction, one
  that fails its second, and one that never fails.
\<close>

theorem set_beta_failure_atomic_witness:
  "(fault_at (failing_chip 0) 0 \<noteq> 0 \<and>
    fst (isl12020_set_beta (kzalloc_isl12020_data (failing_chip 0)) True True True) = - 5 \<and>
    regmap (snd (isl12020_set_beta (kzalloc_isl12020_data (failing_chip 0)) True True True)) =
      (failing_chip 0)\<lparr>trace := [Reg_Read ISL_REG_CSR_BETA]\<rparr> \<and>
    config (snd (isl12020_set_beta (kzalloc_isl12020_data (failing_chip 0)) True True True)) =
      config (kzalloc_isl12020_data (failing_chip 0)) \<and>
    fst (isl12020m_beta (kzalloc_isl12020m_data (failing_chip 0)) True True True) = - 5 \<and>
    \<not> m_tse (snd (isl12020m_beta (kzalloc_isl12020m_data (failing_chip 0)) True True True))) \<and>
   (fault_at (failing_chip 1) 0 = 0 \<and> fault_at (failing_chip 1) 1 \<noteq> 0 \<and>
    fst (isl12020_set_beta (kzalloc_isl12020_data (failing_chip 1)) True True True) = - 5 \<and>
    config (snd (isl12020_set_beta (kzalloc_isl12020_data (failing_chip 1)) True True True)) =
      config (kzalloc_isl12020_data (failing_chip 1)) \<and>
    fst (isl12020m_beta (kzalloc_isl12020m_data (failing_chip 1)) True True True) = - 5 \<and>
    \<not> m_tse (snd (isl12020m_beta (kzalloc_isl12020m_data (failing_chip 1)) True True True))) \<and>
   (fault_at quiet_chip 0 = 0 \<and> fault_at quiet_chip 1 = 0 \<and>
    fst (isl12020_set_beta (kzalloc_isl12020_data quiet_chip) True True True) = 0 \<and>
    config (snd (isl12020_set_beta (kzalloc_isl12020_data quiet_chip) True True True)) =
      (config (kzalloc_isl12020_data quiet_chip))\<lparr>tse := True, btse := True, btsr := True\<rparr> \<and>
    fst (isl12020m_beta (kzalloc_isl12020m_data quiet_chip) True True True) = 0 \<and>
    m_tse (snd (isl12020m_beta (kzalloc_isl12020m_data quiet_chip) True True True)))"
proof -
  note w0 = set_beta_failure_atomic [OF surjective_pairing surjective_pairing,
      of "kzalloc_isl12020_data (failing_chip 0)" True True True
         "kzalloc_isl12020m_data (failing_chip 0)"]
  note w1 = set_beta_failure_atomic [OF surjective_pairing surjective_pairing,
      of "kzalloc_isl12020_data (failing_chip 1)" True True True
         "kzalloc_isl12020m_data (failing_chip 1)"]
  note w2 = set_beta_failure_atomic [OF surjective_pairing surjective_pairing,
      of "kzalloc_isl12020_data quiet_chip" True True True
         "kzalloc_isl12020m_data quiet_chip"]
  show ?thesis
    using w0 w1 w2
    apply (simp only: kzalloc_regmap fault_at_examples)
    apply (simp add: failing_chip_def quiet_chip_def kzalloc_isl12020m_data_def)
    done
qed

text \<open>
  C5. After a successful \<open>isl12020_set_beta\<close> (and likewise \<open>isl12020m_beta\<close>) the BETA
  register holds TSE (bit 7), BTSE (bit 6) and BTSR (bit 5) in the requested states, and
  every other bit of the byte is what it was before the call.
\<close>

theorem set_beta_frame:
  fixes priv :: isl12020_data and privm :: isl12020m_data
  shows
    "(isl12020_set_beta priv t b r = (0, priv') \<longrightarrow>
        (\<forall>n. bit (regs (regmap priv') ISL_REG_CSR_BETA) n =
           (if n = 7 then t else if n = 6 then b else if n = 5 then r
            else bit (regs (regmap priv) ISL_REG_CSR_BETA) n))) \<and>
     (isl12020m_beta privm t b r = (0, privm') \<longrightarrow>
        (\<forall>n. bit (regs (m_regmap privm') ISL_REG_CSR_BETA) n =
           (if n = 7 then t else if n = 6 then b else if n = 5 then r
            else bit (regs (m_regmap privm) ISL_REG_CSR_BETA) n)))"
proof (intro conjI impI allI)
  fix n
  assume "isl12020_set_beta priv t b r = (0, priv')"
  then have "regs (regmap priv') ISL_REG_CSR_BETA =
      beta_value (regs (regmap priv) ISL_REG_CSR_BETA) t b r"
    by (auto simp: set_beta_cases Let_def split: if_splits)
  then show "bit (regs (regmap priv') ISL_REG_CSR_BETA) n =
           (if n = 7 then t else if n = 6 then b else if n = 5 then r
            else bit (regs (regmap priv) ISL_REG_CSR_BETA) n)"
    by (simp only: bit_beta_value)
next
  fix n
  assume "isl12020m_beta privm t b r = (0, privm')"
  then have "regs (m_regmap privm') ISL_REG_CSR_BETA =
      beta_value (regs (m_regmap privm) ISL_REG_CSR_BETA) t b r"
    by (auto simp: m_beta_cases Let_def split: if_splits)
  then show "bit (regs (m_regmap privm') ISL_REG_CSR_BETA) n =
           (if n = 7 then t else if n = 6 then b else if n = 5 then r
            else bit (regs (m_regmap privm) ISL_REG_CSR_BETA) n)"
    by (simp only: bit_beta_value)
qed

lemma regs_chip_with: "regs (chip_with kvs) r = (case map_of kvs r of Some v \<Rightarrow> v | None \<Rightarrow> 0)"
  by (simp add: chip_with_def quiet_chip_def)

text \<open>
  A BETA register holding \<open>0x5F\<close> (bit 6 set, bits 7 and 5 clear, the low five bits set),
  and the request TSE on, BTSE off, BTSR on.
\<close>

theorem set_beta_frame_witness:
  "fst (isl12020_set_beta (kzalloc_isl12020_data (chip_with [(ISL_REG_CSR_BETA, 0x5F)]))
         True False True) = 0 \<and>
   (let new = regs (regmap (snd (isl12020_set_beta
                 (kzalloc_isl12020_data (chip_with [(ISL_REG_CSR_BETA, 0x5F)]))
                 True False True))) ISL_REG_CSR_BETA
    in bit new 7 \<and> \<not> bit new 6 \<and> bit new 5 \<and> bit new 4 \<and> bit new 0) \<and>
   fst (isl12020m_beta (kzalloc_isl12020m_data (chip_with [(ISL_REG_CSR_BETA, 0x5F)]))
         True False True) = 0 \<and>
   (let new = regs (m_regmap (snd (isl12020m_beta
                 (kzalloc_isl12020m_data (chip_with [(ISL_REG_CSR_BETA, 0x5F)]))
                 True False True))) ISL_REG_CSR_BETA
    in bit new 7 \<and> \<not> bit new 6 \<and> bit new 5 \<and> bit new 4 \<and> bit new 0)"
proof -
  let ?p = "kzalloc_isl12020_data (chip_with [(ISL_REG_CSR_BETA, 0x5F)])"
  let ?pm = "kzalloc_isl12020m_data (chip_with [(ISL_REG_CSR_BETA, 0x5F)])"
  have ok: "fst (isl12020_set_beta ?p True False True) = 0"
    by (simp add: set_beta_cases Let_def kzalloc_regmap fault_at_examples)
  have okm: "fst (isl12020m_beta ?pm True False True) = 0"
    by (simp add: m_beta_cases Let_def kzalloc_regmap fault_at_examples)
  from ok have h: "isl12020_set_beta ?p True False True =
      (0, snd (isl12020_set_beta ?p True False True))"
    by (simp add: prod_eq_iff)
  from okm have hm: "isl12020m_beta ?pm True False True =
      (0, snd (isl12020m_beta ?pm True False True))"
    by (simp add: prod_eq_iff)
  note f = set_beta_frame [THEN conjunct1, rule_format, OF h]
  note fm = set_beta_frame [THEN conjunct2, rule_format, OF hm]
  show ?thesis
    using ok okm f [of 7] f [of 6] f [of 5] f [of 4] f [of 0]
      fm [of 7] fm [of 6] fm [of 5] fm [of 4] fm [of 0]
    by (simp add: Let_def kzalloc_regmap regs_chip_with)
qed

section \<open>Reading the temperature\<close>

text \<open>
  C7. When the stored TSE flag is false, \<open>isl12020_read_temp\<close> and \<open>isl12020m_read_temp\<close>
  return \<open>-EOPNOTSUPP\<close>, store nothing, and leave the driver state, with the channel and
  its trace, exactly as it was: no transaction is attempted. When the flag is true the
  call makes exactly one transaction, the two-byte bulk read of the temperature
  registers.
\<close>

theorem read_temp_unsupported_without_tse:
  fixes priv :: isl12020_data and privm :: isl12020m_data
  shows
    "(\<not> tse (config priv) \<longrightarrow> isl12020_read_temp priv v = (- EOPNOTSUPP, v, priv)) \<and>
     (tse (config priv) \<longrightarrow>
        trace (regmap (snd (snd (isl12020_read_temp priv v)))) =
          trace (regmap priv) @ [Bulk_Read ISL_REG_TEMP_TKOL 2]) \<and>
     (\<not> m_tse privm \<longrightarrow> isl12020m_read_temp privm v = (- EOPNOTSUPP, v, privm)) \<and>
     (m_tse privm \<longrightarrow>
        trace (m_regmap (snd (snd (isl12020m_read_temp privm v)))) =
          trace (m_regmap privm) @ [Bulk_Read ISL_REG_TEMP_TKOL 2])"
  by (simp add: isl12020_read_temp_def isl12020m_read_temp_def regmap_bulk_read_def Let_def
      split: prod.splits)

text \<open>
  A freshly allocated driver state has TSE false; the same state with the flag set reads
  the channel.
\<close>

theorem read_temp_unsupported_without_tse_witness:
  "\<not> tse (config (kzalloc_isl12020_data quiet_chip)) \<and>
   isl12020_read_temp (kzalloc_isl12020_data quiet_chip) 7 =
     (- 95, 7, kzalloc_isl12020_data quiet_chip) \<and>
   \<not> m_tse (kzalloc_isl12020m_data quiet_chip) \<and>
   isl12020m_read_temp (kzalloc_isl12020m_data quiet_chip) 7 =
     (- 95, 7, kzalloc_isl12020m_data quiet_chip) \<and>
   tse (config (snd (isl12020_set_beta (kzalloc_isl12020_data quiet_chip) True False False))) \<and>
   trace (regmap (snd (snd (isl12020_read_temp
       (snd (isl12020_set_beta (kzalloc_isl12020_data quiet_chip) True False False)) 7)))) =
     [Reg_Read ISL_REG_CSR_BETA, Reg_Write ISL_REG_CSR_BETA 0x80,
      Bulk_Read ISL_REG_TEMP_TKOL 2] \<and>
   m_tse (snd (isl12020m_beta (kzalloc_isl12020m_data quiet_chip) True False False)) \<and>
   trace (m_regmap (snd (snd (isl12020m_read_temp
       (snd (isl12020m_beta (kzalloc_isl12020m_data quiet_chip) True False False)) 7)))) =
     [Reg_Read ISL_REG_CSR_BETA, Reg_Write ISL_REG_CSR_BETA 0x80,
      Bulk_Read ISL_REG_TEMP_TKOL 2]"
proof -
  let ?p = "kzalloc_isl12020_data quiet_chip" and ?pm = "kzalloc_isl12020m_data quiet_chip"
  let ?q = "snd (isl12020_set_beta ?p True False False)"
  let ?qm = "snd (isl12020m_beta ?pm True False False)"
  have v: "beta_value 0 True False False = 0x80"
    by (simp add: beta_value_def ISL_BIT_CSR_BETA_TSE_def ISL_BIT_CSR_BETA_BTSE_def
        ISL_BIT_CSR_BETA_BTSR_def BIT_def)
  have off: "\<not> tse (config ?p)" "\<not> m_tse ?pm"
    by (simp_all add: kzalloc_isl12020_data_def kzalloc_isl12020m_data_def)
  have on: "tse (config ?q)" "m_tse ?qm"
    by (simp_all add: set_beta_cases m_beta_cases Let_def kzalloc_regmap fault_at_examples)
  have tr: "trace (regmap ?q) = [Reg_Read ISL_REG_CSR_BETA, Reg_Write ISL_REG_CSR_BETA 0x80]"
    "trace (m_regmap ?qm) = [Reg_Read ISL_REG_CSR_BETA, Reg_Write ISL_REG_CSR_BETA 0x80]"
    by (simp_all add: set_beta_cases m_beta_cases Let_def kzalloc_regmap fault_at_def
        quiet_chip_def v)
  note t0 = read_temp_unsupported_without_tse [of ?p 7 ?pm]
  note t1 = read_temp_unsupported_without_tse [of ?q 7 ?qm]
  from t0 t1 off on tr show ?thesis by (simp add: EOPNOTSUPP_def)
qed

section \<open>The frequency-output register\<close>

text \<open>
  The byte that \<open>isl12020_set_freq_out\<close> writes: the low four bits are those of \<open>mode\<close>,
  bit 4 (FOBATB) is the negation of \<open>batmode\<close>, the upper three bits are as read. The byte
  of \<open>isl12020m_set_freq_out\<close> differs in bit 4, which is \<open>enable\<close> itself.
\<close>

lemma bit_int_value:
  "bit (int_value old mode batmode) n =
     (if n < 4 then bit mode n else if n = 4 then \<not> batmode else bit old n)"
  unfolding int_value_def Let_def ISL_BIT_CSR_INT_FOBATB_def MASK_values
  by (auto simp: bit_simps BIT_bit dest: bit_u8_bound)

lemma bit_int_value_m:
  "bit (int_value_m old mode enable) n =
     (if n < 4 then bit mode n else if n = 4 then enable else bit old n)"
  unfolding int_value_m_def Let_def ISL_BIT_CSR_INT_FOBATB_def MASK_values
  by (auto simp: bit_simps BIT_bit dest: bit_u8_bound)

lemma set_freq_out_cases:
  "isl12020_set_freq_out priv mode batmode =
    (let rm = regmap priv; v = int_value (regs rm ISL_REG_CSR_INT) mode batmode in
     if fault_at rm 0 \<noteq> 0 then
       (- int (fault_at rm 0),
        priv\<lparr>regmap := rm\<lparr>trace := trace rm @ [Reg_Read ISL_REG_CSR_INT]\<rparr>\<rparr>)
     else if fault_at rm 1 \<noteq> 0 then
       (- int (fault_at rm 1),
        priv\<lparr>regmap := rm\<lparr>trace := trace rm @
                 [Reg_Read ISL_REG_CSR_INT, Reg_Write ISL_REG_CSR_INT v]\<rparr>\<rparr>)
     else
       (0, priv\<lparr>regmap := rm\<lparr>trace := trace rm @
                    [Reg_Read ISL_REG_CSR_INT, Reg_Write ISL_REG_CSR_INT v],
                  regs := (regs rm)(ISL_REG_CSR_INT := v)\<rparr>,
                config := (config priv)\<lparr>freq_out_mode := mode, freq_out_bat := batmode\<rparr>\<rparr>))"
  unfolding isl12020_set_freq_out_def regmap_read_def regmap_write_def Let_def int_value_def
    next_err_def fault_at_def
  by (simp split: prod.splits)

lemma m_set_freq_out_cases:
  "isl12020m_set_freq_out priv mode enable =
    (let rm = m_regmap priv; v = int_value_m (regs rm ISL_REG_CSR_INT) mode enable in
     if fault_at rm 0 \<noteq> 0 then
       (- int (fault_at rm 0),
        priv\<lparr>m_regmap := rm\<lparr>trace := trace rm @ [Reg_Read ISL_REG_CSR_INT]\<rparr>\<rparr>)
     else if fault_at rm 1 \<noteq> 0 then
       (- int (fault_at rm 1),
        priv\<lparr>m_regmap := rm\<lparr>trace := trace rm @
                 [Reg_Read ISL_REG_CSR_INT, Reg_Write ISL_REG_CSR_INT v]\<rparr>\<rparr>)
     else
       (0, priv\<lparr>m_regmap := rm\<lparr>trace := trace rm @
                    [Reg_Read ISL_REG_CSR_INT, Reg_Write ISL_REG_CSR_INT v],
                  regs := (regs rm)(ISL_REG_CSR_INT := v)\<rparr>,
                m_freq_out_mode := mode, m_freq_out := enable\<rparr>))"
  unfolding isl12020m_set_freq_out_def regmap_read_def regmap_write_def Let_def int_value_m_def
    next_err_def fault_at_def
  by (simp split: prod.splits)

lemma low_nibble_int_value:
  "int_value old mode batmode AND MASK4BITS = mode AND MASK4BITS"
  "int_value_m old mode enable AND MASK4BITS = mode AND MASK4BITS"
  by (rule bit_eqI; simp add: MASK_values bit_simps bit_int_value bit_int_value_m)+

lemma unat_low_nibble: "unat ((x :: u8) AND MASK4BITS) = unat x mod 16"
  by (simp add: MASK_values unat_mod flip: take_bit_eq_mask add: take_bit_eq_mod)

lemma low_nibble_fixed: "((x :: u8) = x AND MASK4BITS) = (x \<le> 15)"
proof -
  have "(x = x AND MASK4BITS) = (unat x = unat (x AND MASK4BITS))"
    by (simp only: word_unat_eq_iff)
  also have "\<dots> = (unat x = unat x mod 16)"
    by (simp only: unat_low_nibble)
  also have "\<dots> = (unat x < 16)"
    by presburger
  also have "\<dots> = (x \<le> 15)"
    by (simp add: word_le_nat_alt) arith
  finally show ?thesis .
qed

lemma set_freq_out_success:
  assumes "isl12020_set_freq_out priv mode batmode = (0, priv')"
  shows "regs (regmap priv') ISL_REG_CSR_INT = int_value (regs (regmap priv) ISL_REG_CSR_INT) mode batmode"
    and "config priv' = (config priv)\<lparr>freq_out_mode := mode, freq_out_bat := batmode\<rparr>"
  using assms by (auto simp: set_freq_out_cases Let_def split: if_splits)

lemma m_set_freq_out_success:
  assumes "isl12020m_set_freq_out priv mode enable = (0, priv')"
  shows "regs (m_regmap priv') ISL_REG_CSR_INT = int_value_m (regs (m_regmap priv) ISL_REG_CSR_INT) mode enable"
    and "m_freq_out_mode priv' = mode" and "m_freq_out priv' = enable"
  using assms by (auto simp: m_set_freq_out_cases Let_def split: if_splits)

text \<open>
  C10. After a successful \<open>isl12020_set_freq_out\<close> (and likewise
  \<open>isl12020m_set_freq_out\<close>) the mode has been masked before it was written: the low
  four bits of the INT register are those of \<open>mode\<close>, that is \<open>mode\<close> modulo 16, bit 4 is
  the battery flag as the driver stores it, and the three bits above are what they were,
  whatever the upper bits of \<open>mode\<close> are. The stored \<open>freq_out_mode\<close> is the whole \<open>mode\<close>,
  so it equals the register's field exactly when \<open>mode\<close> is at most 15.
\<close>

theorem set_freq_out_mode_mirror:
  fixes priv :: isl12020_data and privm :: isl12020m_data
  shows
    "(isl12020_set_freq_out priv mode batmode = (0, priv') \<longrightarrow>
        (\<forall>n. bit (regs (regmap priv') ISL_REG_CSR_INT) n =
           (if n < 4 then bit mode n else if n = 4 then \<not> batmode
            else bit (regs (regmap priv) ISL_REG_CSR_INT) n)) \<and>
        regs (regmap priv') ISL_REG_CSR_INT AND MASK4BITS = mode AND MASK4BITS \<and>
        unat (regs (regmap priv') ISL_REG_CSR_INT AND MASK4BITS) = unat mode mod 16 \<and>
        freq_out_mode (config priv') = mode \<and>
        ((freq_out_mode (config priv') = regs (regmap priv') ISL_REG_CSR_INT AND MASK4BITS)
           = (mode \<le> 15))) \<and>
     (isl12020m_set_freq_out privm mode enable = (0, privm') \<longrightarrow>
        (\<forall>n. bit (regs (m_regmap privm') ISL_REG_CSR_INT) n =
           (if n < 4 then bit mode n else if n = 4 then enable
            else bit (regs (m_regmap privm) ISL_REG_CSR_INT) n)) \<and>
        regs (m_regmap privm') ISL_REG_CSR_INT AND MASK4BITS = mode AND MASK4BITS \<and>
        unat (regs (m_regmap privm') ISL_REG_CSR_INT AND MASK4BITS) = unat mode mod 16 \<and>
        m_freq_out_mode privm' = mode \<and>
        ((m_freq_out_mode privm' = regs (m_regmap privm') ISL_REG_CSR_INT AND MASK4BITS)
           = (mode \<le> 15)))"
proof (intro conjI impI allI)
  fix n
  assume a: "isl12020_set_freq_out priv mode batmode = (0, priv')"
  note s = set_freq_out_success [OF a]
  show "bit (regs (regmap priv') ISL_REG_CSR_INT) n =
           (if n < 4 then bit mode n else if n = 4 then \<not> batmode
            else bit (regs (regmap priv) ISL_REG_CSR_INT) n)"
    by (simp only: s bit_int_value)
next
  assume a: "isl12020_set_freq_out priv mode batmode = (0, priv')"
  note s = set_freq_out_success [OF a]
  show "regs (regmap priv') ISL_REG_CSR_INT AND MASK4BITS = mode AND MASK4BITS"
    by (simp add: s low_nibble_int_value)
  then show "unat (regs (regmap priv') ISL_REG_CSR_INT AND MASK4BITS) = unat mode mod 16"
    by (simp add: unat_low_nibble)
  show "freq_out_mode (config priv') = mode" by (simp add: s)
  show "(freq_out_mode (config priv') = regs (regmap priv') ISL_REG_CSR_INT AND MASK4BITS)
           = (mode \<le> 15)"
    by (simp add: s low_nibble_int_value low_nibble_fixed)
next
  fix n
  assume a: "isl12020m_set_freq_out privm mode enable = (0, privm')"
  note s = m_set_freq_out_success [OF a]
  show "bit (regs (m_regmap privm') ISL_REG_CSR_INT) n =
           (if n < 4 then bit mode n else if n = 4 then enable
            else bit (regs (m_regmap privm) ISL_REG_CSR_INT) n)"
    by (simp only: s bit_int_value_m)
next
  assume a: "isl12020m_set_freq_out privm mode enable = (0, privm')"
  note s = m_set_freq_out_success [OF a]
  show "regs (m_regmap privm') ISL_REG_CSR_INT AND MASK4BITS = mode AND MASK4BITS"
    by (simp add: s low_nibble_int_value)
  then show "unat (regs (m_regmap privm') ISL_REG_CSR_INT AND MASK4BITS) = unat mode mod 16"
    by (simp add: unat_low_nibble)
  show "m_freq_out_mode privm' = mode" by (simp add: s)
  show "(m_freq_out_mode privm' = regs (m_regmap privm') ISL_REG_CSR_INT AND MASK4BITS)
           = (mode \<le> 15)"
    by (simp add: s low_nibble_int_value low_nibble_fixed)
qed

text \<open>
  Mode \<open>0xF3\<close> on a quiet chip: the register becomes \<open>0x03\<close>, none of the upper bits of
  the mode reaches it, the stored mode is \<open>0xF3\<close>, and the two differ.
\<close>

theorem set_freq_out_mode_mirror_witness:
  "fst (isl12020_set_freq_out (kzalloc_isl12020_data quiet_chip) 0xF3 True) = 0 \<and>
   regs (regmap (snd (isl12020_set_freq_out (kzalloc_isl12020_data quiet_chip) 0xF3 True)))
     ISL_REG_CSR_INT = 0x03 \<and>
   (let new = regs (regmap (snd (isl12020_set_freq_out (kzalloc_isl12020_data quiet_chip)
                 0xF3 True))) ISL_REG_CSR_INT
    in \<not> bit new 7 \<and> \<not> bit new 6 \<and> \<not> bit new 5 \<and> \<not> bit new 4 \<and>
       \<not> bit new 3 \<and> \<not> bit new 2 \<and> bit new 1 \<and> bit new 0 \<and> new AND MASK4BITS = 3) \<and>
   freq_out_mode (config (snd (isl12020_set_freq_out (kzalloc_isl12020_data quiet_chip)
     0xF3 True))) = 0xF3 \<and>
   fst (isl12020m_set_freq_out (kzalloc_isl12020m_data quiet_chip) 0xF3 False) = 0 \<and>
   regs (m_regmap (snd (isl12020m_set_freq_out (kzalloc_isl12020m_data quiet_chip)
     0xF3 False))) ISL_REG_CSR_INT = 0x03 \<and>
   (let new = regs (m_regmap (snd (isl12020m_set_freq_out (kzalloc_isl12020m_data quiet_chip)
                 0xF3 False))) ISL_REG_CSR_INT
    in \<not> bit new 7 \<and> \<not> bit new 6 \<and> \<not> bit new 5 \<and> \<not> bit new 4 \<and>
       \<not> bit new 3 \<and> \<not> bit new 2 \<and> bit new 1 \<and> bit new 0 \<and> new AND MASK4BITS = 3) \<and>
   m_freq_out_mode (snd (isl12020m_set_freq_out (kzalloc_isl12020m_data quiet_chip)
     0xF3 False)) = 0xF3"
proof -
  let ?p = "kzalloc_isl12020_data quiet_chip" and ?pm = "kzalloc_isl12020m_data quiet_chip"
  have ok: "fst (isl12020_set_freq_out ?p 0xF3 True) = 0"
    by (simp add: set_freq_out_cases Let_def kzalloc_regmap fault_at_examples)
  have okm: "fst (isl12020m_set_freq_out ?pm 0xF3 False) = 0"
    by (simp add: m_set_freq_out_cases Let_def kzalloc_regmap fault_at_examples)
  from ok have h: "isl12020_set_freq_out ?p 0xF3 True =
      (0, snd (isl12020_set_freq_out ?p 0xF3 True))"
    by (simp add: prod_eq_iff)
  from okm have hm: "isl12020m_set_freq_out ?pm 0xF3 False =
      (0, snd (isl12020m_set_freq_out ?pm 0xF3 False))"
    by (simp add: prod_eq_iff)
  have v: "int_value 0 0xF3 True = 0x03" "int_value_m 0 0xF3 False = 0x03"
    by (simp_all add: int_value_def int_value_m_def ISL_BIT_CSR_INT_FOBATB_def BIT_def
        MASK_values mask_eq_exp_minus_1)
  have byte: "regs (regmap (snd (isl12020_set_freq_out ?p 0xF3 True))) ISL_REG_CSR_INT = 0x03"
    "regs (m_regmap (snd (isl12020m_set_freq_out ?pm 0xF3 False))) ISL_REG_CSR_INT = 0x03"
    by (simp_all add: set_freq_out_cases m_set_freq_out_cases Let_def kzalloc_regmap
        fault_at_def quiet_chip_def v)
  have m: "(0xF3 :: u8) AND MASK4BITS = 3"
    by (simp add: MASK_values mask_eq_exp_minus_1)
  note t = set_freq_out_mode_mirror [THEN conjunct1, rule_format, OF h]
  note tm = set_freq_out_mode_mirror [THEN conjunct2, rule_format, OF hm]
  have r0: "regs quiet_chip r = 0" for r by (simp add: quiet_chip_def)
  note b = t [THEN conjunct1, rule_format]
  note bm = tm [THEN conjunct1, rule_format]
  from ok okm m byte t [THEN conjunct2] tm [THEN conjunct2]
    b [of 7] b [of 6] b [of 5] b [of 4] b [of 3] b [of 2] b [of 1] b [of 0]
    bm [of 7] bm [of 6] bm [of 5] bm [of 4] bm [of 3] bm [of 2] bm [of 1] bm [of 0]
  show ?thesis by (simp add: Let_def kzalloc_regmap r0)
qed

text \<open>
  In rtc-isl12020.c the battery flag is stored inverted: after a successful
  \<open>isl12020_set_freq_out\<close> FOBATB (bit 4) is clear exactly when \<open>batmode\<close> is true, the
  stored \<open>freq_out_bat\<close> is \<open>batmode\<close>, and the attribute shows it as \<open>1\<close> or \<open>0\<close>.
\<close>

lemma set_freq_out_inverts_fobatb:
  assumes "isl12020_set_freq_out priv mode batmode = (0, priv')"
  shows "bit (regs (regmap priv') ISL_REG_CSR_INT) 4 = (\<not> batmode)"
    and "freq_out_bat (config priv') = batmode"
    and "isl12020_bat_freq_out_show priv' = [if batmode then CHR ''1'' else CHR ''0'', CHR 0x0A]"
  by (simp_all add: set_freq_out_success [OF assms] bit_int_value isl12020_bat_freq_out_show_def)

text \<open>
  C2. The isl12020m driver does not invert: \<open>isl12020m_set_freq_out\<close> with \<open>enable\<close> true
  on a chip whose INT register is 0 succeeds and leaves FOBATB set (the register reads
  \<open>0x10\<close>); with \<open>enable\<close> false on a chip whose INT register is \<open>0x10\<close> it leaves FOBATB
  clear.
\<close>

theorem isl12020m_set_freq_out_fobatb_not_inverted:
  "fst (isl12020m_set_freq_out (kzalloc_isl12020m_data quiet_chip) 0 True) = 0 \<and>
   regs (m_regmap (snd (isl12020m_set_freq_out (kzalloc_isl12020m_data quiet_chip) 0 True)))
     ISL_REG_CSR_INT = 0x10 \<and>
   bit (regs (m_regmap (snd (isl12020m_set_freq_out (kzalloc_isl12020m_data quiet_chip)
     0 True))) ISL_REG_CSR_INT) 4 \<and>
   m_freq_out (snd (isl12020m_set_freq_out (kzalloc_isl12020m_data quiet_chip) 0 True)) \<and>
   fst (isl12020m_set_freq_out
          (kzalloc_isl12020m_data (chip_with [(ISL_REG_CSR_INT, 0x10)])) 0 False) = 0 \<and>
   regs (m_regmap (snd (isl12020m_set_freq_out
          (kzalloc_isl12020m_data (chip_with [(ISL_REG_CSR_INT, 0x10)])) 0 False)))
     ISL_REG_CSR_INT = 0"
proof -
  have v: "int_value_m 0 0 True = 0x10" "int_value_m 0x10 0 False = 0"
    by (simp_all add: int_value_m_def ISL_BIT_CSR_INT_FOBATB_def BIT_def MASK_values
        mask_eq_exp_minus_1)
  show ?thesis
    by (simp add: m_set_freq_out_cases Let_def kzalloc_regmap fault_at_examples
        regs_chip_with v)
      (simp add: quiet_chip_def v)
qed

text \<open>
  C6. The mode that \<open>isl12020_probe\<close> takes from the device property
  \<open>frequency-output-mode\<close> reaches \<open>isl12020_set_freq_out\<close> unchecked. Bound to a quiet
  chip with that property set to 16, one above \<open>FREQ_OUT_MODE_MAX\<close>, the driver reads and
  writes the INT register and stores mode 16; nothing fails with \<open>-ERANGE\<close>. The same holds
  for \<open>isl12020_set_freq_out\<close> called with mode 16 directly.
\<close>

theorem isl12020_probe_mode_16_unchecked:
  "(\<exists>p. isl12020_probe
          (no_config_env\<lparr>device_property_read_u32 :=
             (\<lambda>name. if name = ''frequency-output-mode'' then Some 16 else None)\<rparr>) = Inr p \<and>
        freq_out_mode (config p) = 16 \<and>
        FREQ_OUT_MODE_MAX < freq_out_mode (config p) \<and>
        trace (regmap p) =
          [Reg_Read ISL_REG_CSR_SR, Reg_Read ISL_REG_CSR_INT,
           Reg_Write ISL_REG_CSR_INT 0x10] \<and>
        regs (regmap p) ISL_REG_CSR_INT = 0x10) \<and>
   fst (isl12020_set_freq_out (kzalloc_isl12020_data quiet_chip) 16 False) = 0 \<and>
   fst (isl12020_set_freq_out (kzalloc_isl12020_data quiet_chip) 16 False) \<noteq> - ERANGE \<and>
   trace (regmap (snd (isl12020_set_freq_out (kzalloc_isl12020_data quiet_chip) 16 False))) =
     [Reg_Read ISL_REG_CSR_INT, Reg_Write ISL_REG_CSR_INT 0x10]"
proof -
  have v: "int_value 0 16 False = 0x10"
    by (simp add: int_value_def ISL_BIT_CSR_INT_FOBATB_def BIT_def MASK_values
        mask_eq_exp_minus_1)
  have m: "(16 :: u8) > FREQ_OUT_MODE_MAX"
    by (simp add: FREQ_OUT_MODE_MAX_def GENMASK_def mask_eq_exp_minus_1)
  have p: "\<exists>p. isl12020_probe
          (no_config_env\<lparr>device_property_read_u32 :=
             (\<lambda>name. if name = ''frequency-output-mode'' then Some 16 else None)\<rparr>) = Inr p \<and>
        freq_out_mode (config p) = 16 \<and>
        FREQ_OUT_MODE_MAX < freq_out_mode (config p) \<and>
        trace (regmap p) =
          [Reg_Read ISL_REG_CSR_SR, Reg_Read ISL_REG_CSR_INT,
           Reg_Write ISL_REG_CSR_INT 0x10] \<and>
        regs (regmap p) ISL_REG_CSR_INT = 0x10"
    by (simp add: isl12020_probe_def no_config_env_def Let_def regmap_read_def next_err_def
        set_freq_out_cases fault_at_def kzalloc_isl12020_data_def quiet_chip_def v m)
  have d: "fst (isl12020_set_freq_out (kzalloc_isl12020_data quiet_chip) 16 False) = 0"
    "fst (isl12020_set_freq_out (kzalloc_isl12020_data quiet_chip) 16 False) \<noteq> - ERANGE"
    "trace (regmap (snd (isl12020_set_freq_out (kzalloc_isl12020_data quiet_chip) 16 False))) =
     [Reg_Read ISL_REG_CSR_INT, Reg_Write ISL_REG_CSR_INT 0x10]"
    by (simp_all add: set_freq_out_cases Let_def kzalloc_regmap fault_at_def quiet_chip_def v
        ERANGE_def)
  from p d show ?thesis by blast
qed

text \<open>
  The attribute setter \<open>isl12020_freq_out_store\<close> does check: \<open>FREQ_OUT_MODE_MAX\<close> is 15, a
  parsed mode above it makes the setter return \<open>-ERANGE\<close> with the driver state, channel
  and trace included, untouched, and a parsed mode up to 15 is handed to
  \<open>isl12020_set_freq_out\<close>.
\<close>

lemma freq_out_store_range_check:
  "FREQ_OUT_MODE_MAX = 15 \<and>
   (kstrtou8 buf 10 = (0, val) \<and> FREQ_OUT_MODE_MAX < val \<longrightarrow>
      isl12020_freq_out_store kstrtou8 priv buf count = (- ERANGE, priv)) \<and>
   (kstrtou8 buf 10 = (0, val) \<and> val \<le> FREQ_OUT_MODE_MAX \<longrightarrow>
      isl12020_freq_out_store kstrtou8 priv buf count =
        (let r = isl12020_set_freq_out priv val (freq_out_bat (config priv))
         in (if fst r \<noteq> 0 then fst r else int count, snd r)))"
proof -
  have "FREQ_OUT_MODE_MAX = 15"
    by (simp add: FREQ_OUT_MODE_MAX_def GENMASK_def mask_eq_exp_minus_1)
  moreover have "- ERANGE \<noteq> 0" by (simp add: ERANGE_def)
  ultimately show ?thesis
    by (auto simp: isl12020_freq_out_store_def Let_def split: prod.splits)
qed

text \<open>
  The caller writes \<open>16\<close> and then \<open>3\<close>, each with a newline, to a freshly bound quiet chip;
  the parser is the one that reads these two buffers.
\<close>

lemma freq_out_store_range_check_example:
  "(\<lambda>s b. (0, 16)) (''16'' @ [CHR 0x0A]) 10 = (0 :: int, 16 :: u8) \<and> FREQ_OUT_MODE_MAX < 16 \<and>
   isl12020_freq_out_store (\<lambda>s b. (0, 16)) (kzalloc_isl12020_data quiet_chip)
     (''16'' @ [CHR 0x0A]) 3 = (- 34, kzalloc_isl12020_data quiet_chip) \<and>
   (\<lambda>s b. (0, 3)) (''3'' @ [CHR 0x0A]) 10 = (0 :: int, 3 :: u8) \<and> 3 \<le> FREQ_OUT_MODE_MAX \<and>
   fst (isl12020_freq_out_store (\<lambda>s b. (0, 3)) (kzalloc_isl12020_data quiet_chip)
     (''3'' @ [CHR 0x0A]) 2) = 2 \<and>
   freq_out_mode (config (snd (isl12020_freq_out_store (\<lambda>s b. (0, 3))
       (kzalloc_isl12020_data quiet_chip) (''3'' @ [CHR 0x0A]) 2))) = 3"
proof -
  let ?p = "kzalloc_isl12020_data quiet_chip"
  have mx: "FREQ_OUT_MODE_MAX < 16" "3 \<le> FREQ_OUT_MODE_MAX"
    by (simp_all add: FREQ_OUT_MODE_MAX_def GENMASK_def mask_eq_exp_minus_1)
  have t16: "isl12020_freq_out_store (\<lambda>s b. (0, 16)) ?p (''16'' @ [CHR 0x0A]) 3 =
      (- ERANGE, ?p)"
    by (rule freq_out_store_range_check [THEN conjunct2, THEN conjunct1, rule_format,
          where val = 16]) (simp add: mx)
  have t3: "isl12020_freq_out_store (\<lambda>s b. (0, 3)) ?p (''3'' @ [CHR 0x0A]) 2 =
      (let r = isl12020_set_freq_out ?p 3 (freq_out_bat (config ?p))
       in (if fst r \<noteq> 0 then fst r else int 2, snd r))"
    by (rule freq_out_store_range_check [THEN conjunct2, THEN conjunct2, rule_format,
          where val = 3]) (simp add: mx)
  have s: "fst (isl12020_set_freq_out ?p 3 (freq_out_bat (config ?p))) = 0"
    "freq_out_mode (config (snd (isl12020_set_freq_out ?p 3 (freq_out_bat (config ?p))))) = 3"
    by (simp_all add: set_freq_out_cases Let_def kzalloc_regmap fault_at_examples)
  show ?thesis
    using t16 t3 s mx by (simp add: Let_def ERANGE_def)
qed

section \<open>Attribute setters\<close>

text \<open>
  Four setters of rtc-isl12020.c hand the controller's error to the caller and report
  \<open>count\<close> on success.
\<close>

lemma beta_stores_report:
  assumes "kstrtobool buf = (0, val)"
  shows "fst (isl12020_tse_store kstrtobool priv buf count) =
           (let e = fst (isl12020_set_beta priv val (btse (config priv)) (btsr (config priv)))
            in if e \<noteq> 0 then e else int count)"
    and "fst (isl12020_btse_store kstrtobool priv buf count) =
           (let e = fst (isl12020_set_beta priv (tse (config priv)) val (btsr (config priv)))
            in if e \<noteq> 0 then e else int count)"
    and "fst (isl12020_btsr_store kstrtobool priv buf count) =
           (let e = fst (isl12020_set_beta priv (tse (config priv)) (btse (config priv)) val)
            in if e \<noteq> 0 then e else int count)"
  using assms
  by (simp_all add: isl12020_tse_store_def isl12020_btse_store_def isl12020_btsr_store_def
      Let_def split: prod.splits)

lemma freq_out_store_reports:
  assumes "kstrtou8 buf 10 = (0, val)" and "val \<le> FREQ_OUT_MODE_MAX"
  shows "fst (isl12020_freq_out_store kstrtou8 priv buf count) =
           (let e = fst (isl12020_set_freq_out priv val (freq_out_bat (config priv)))
            in if e \<noteq> 0 then e else int count)"
  using assms by (simp add: isl12020_freq_out_store_def Let_def split: prod.splits)

text \<open>
  \<open>isl12020_bat_freq_out_store\<close> also hands the error on, but on success it returns the
  parsed boolean, 1 or 0, whatever \<open>count\<close> is.
\<close>

lemma bat_freq_out_store_reports:
  assumes "kstrtobool buf = (0, val)"
  shows "fst (isl12020_bat_freq_out_store kstrtobool priv buf count) =
           (let e = fst (isl12020_set_freq_out priv (freq_out_mode (config priv)) val)
            in if e \<noteq> 0 then e else if val then 1 else 0)"
  using assms by (simp add: isl12020_bat_freq_out_store_def Let_def split: prod.splits)

text \<open>\<open>isl12020m_tse_store\<close> returns \<open>count\<close> whatever \<open>isl12020m_beta\<close> returned.\<close>

lemma m_tse_store_reports:
  "fst (isl12020m_tse_store sscanf_hhu val0 priv buf count) = int count"
  by (simp add: isl12020m_tse_store_def Let_def)

text \<open>
  C8. Two setters break the claim. The caller writes \<open>1\<close> and a newline (two bytes) to
  \<open>battery_frequency_output_enabled\<close> on a quiet chip: the controller succeeds, FOBATB is
  written, and \<open>isl12020_bat_freq_out_store\<close> returns 1, not 2; for \<open>0\<close> and a newline
  it returns 0. The caller writes \<open>1\<close> and a newline to \<open>temperature_sensor_enabled\<close> of
  the isl12020m driver on a chip whose next transaction fails: \<open>isl12020m_beta\<close> returns
  \<open>-5\<close> and leaves TSE false, and \<open>isl12020m_tse_store\<close> returns 2 as if it had succeeded.
\<close>

theorem attribute_setters_misreport:
  "fst (isl12020_bat_freq_out_store (\<lambda>s. (0, True)) (kzalloc_isl12020_data quiet_chip)
         (''1'' @ [CHR 0x0A]) 2) = 1 \<and>
   freq_out_bat (config (snd (isl12020_bat_freq_out_store (\<lambda>s. (0, True))
         (kzalloc_isl12020_data quiet_chip) (''1'' @ [CHR 0x0A]) 2))) \<and>
   fst (isl12020_bat_freq_out_store (\<lambda>s. (0, False)) (kzalloc_isl12020_data quiet_chip)
         (''0'' @ [CHR 0x0A]) 2) = 0 \<and>
   fst (isl12020_tse_store (\<lambda>s. (0, True)) (kzalloc_isl12020_data quiet_chip)
         (''1'' @ [CHR 0x0A]) 2) = 2 \<and>
   fst (isl12020m_beta (kzalloc_isl12020m_data (failing_chip 0)) True False False) = - 5 \<and>
   fst (isl12020m_tse_store (\<lambda>s v. 1) 0 (kzalloc_isl12020m_data (failing_chip 0))
         (''1'' @ [CHR 0x0A]) 2) = 2 \<and>
   \<not> m_tse (snd (isl12020m_tse_store (\<lambda>s v. 1) 0 (kzalloc_isl12020m_data (failing_chip 0))
         (''1'' @ [CHR 0x0A]) 2)) \<and>
   fst (isl12020_tse_store (\<lambda>s. (0, True)) (kzalloc_isl12020_data (failing_chip 0))
         (''1'' @ [CHR 0x0A]) 2) = - 5"
proof -
  have a: "fst (isl12020_bat_freq_out_store (\<lambda>s. (0, True)) (kzalloc_isl12020_data quiet_chip)
         (''1'' @ [CHR 0x0A]) 2) = 1"
    "fst (isl12020_bat_freq_out_store (\<lambda>s. (0, False)) (kzalloc_isl12020_data quiet_chip)
         (''0'' @ [CHR 0x0A]) 2) = 0"
    by (simp_all add: isl12020_bat_freq_out_store_def set_freq_out_cases Let_def
        kzalloc_regmap fault_at_examples)
  have b: "freq_out_bat (config (snd (isl12020_bat_freq_out_store (\<lambda>s. (0, True))
         (kzalloc_isl12020_data quiet_chip) (''1'' @ [CHR 0x0A]) 2)))"
    by (simp add: isl12020_bat_freq_out_store_def set_freq_out_cases Let_def kzalloc_regmap
        fault_at_examples)
  have c: "fst (isl12020_tse_store (\<lambda>s. (0, True)) (kzalloc_isl12020_data quiet_chip)
         (''1'' @ [CHR 0x0A]) 2) = 2"
    "fst (isl12020_tse_store (\<lambda>s. (0, True)) (kzalloc_isl12020_data (failing_chip 0))
         (''1'' @ [CHR 0x0A]) 2) = - 5"
    by (simp_all add: isl12020_tse_store_def set_beta_cases Let_def kzalloc_regmap
        fault_at_examples)
  have d: "fst (isl12020m_beta (kzalloc_isl12020m_data (failing_chip 0)) True False False) = - 5"
    by (simp add: m_beta_cases Let_def kzalloc_regmap fault_at_examples)
  have e: "\<not> m_tse (snd (isl12020m_tse_store (\<lambda>s v. 1) 0
         (kzalloc_isl12020m_data (failing_chip 0)) (''1'' @ [CHR 0x0A]) 2))"
    by (simp add: isl12020m_tse_store_def m_beta_cases Let_def kzalloc_regmap
        fault_at_examples) (simp add: kzalloc_isl12020m_data_def)
  from a b c d e show ?thesis by (simp add: m_tse_store_reports)
qed

section \<open>Binding without startup configuration\<close>

text \<open>
  rtc-isl12020.c: when no device property is present and \<open>isl12020_probe\<close> binds the
  device, the stored configuration is the zeroed one (all three compensation flags false,
  frequency-output mode 0, battery output disabled), whether the write of the mode
  succeeded or not, and a temperature read fails with \<open>-EOPNOTSUPP\<close> without touching the
  channel.
\<close>

lemma isl12020_probe_defaults:
  assumes np: "\<forall>name. \<not> device_property_present env name"
    and nu: "device_property_read_u32 env ''frequency-output-mode'' = None"
    and ok: "isl12020_probe env = Inr priv"
  shows "config priv = \<lparr>freq_out_mode = 0, freq_out_bat = False, tse = False, btse = False,
                         btsr = False\<rparr>"
    and "isl12020_read_temp priv v = (- EOPNOTSUPP, v, priv)"
proof -
  show c: "config priv = \<lparr>freq_out_mode = 0, freq_out_bat = False, tse = False, btse = False,
                         btsr = False\<rparr>"
    using ok np nu
    by (auto simp: isl12020_probe_def Let_def set_freq_out_cases kzalloc_isl12020_data_def
        split: if_splits prod.splits)
  show "isl12020_read_temp priv v = (- EOPNOTSUPP, v, priv)"
    by (simp add: isl12020_read_temp_def c)
qed

text \<open>
  C9. rtc-isl12020m.c: \<open>isl12020m_probe\<close> starts from \<open>freq_out_mode = 1\<close>. Bound to a quiet
  chip with no device property present, the driver has all three compensation flags
  false and the output flag false, but its stored frequency-output mode is 1 and it has
  written mode 1 into the INT register. The same binding by \<open>isl12020_probe\<close> stores mode
  0 and writes \<open>0x10\<close> (mode 0, FOBATB set).
\<close>

theorem isl12020m_probe_default_mode_is_1:
  "(\<exists>p. isl12020m_probe no_config_env = Inr p \<and>
        \<not> m_tse p \<and> \<not> m_btse p \<and> \<not> m_btsr p \<and> \<not> m_freq_out p \<and>
        m_freq_out_mode p = 1 \<and>
        regs (m_regmap p) ISL_REG_CSR_INT = 0x01 \<and>
        isl12020m_read_temp p 0 = (- EOPNOTSUPP, 0, p)) \<and>
   (\<exists>p. isl12020_probe no_config_env = Inr p \<and>
        config p = \<lparr>freq_out_mode = 0, freq_out_bat = False, tse = False, btse = False,
                    btsr = False\<rparr> \<and>
        regs (regmap p) ISL_REG_CSR_INT = 0x10 \<and>
        isl12020_read_temp p 0 = (- EOPNOTSUPP, 0, p))"
proof -
  have v: "int_value_m 0 1 False = 0x01" "int_value 0 0 False = 0x10"
    by (simp_all add: int_value_m_def int_value_def ISL_BIT_CSR_INT_FOBATB_def BIT_def
        MASK_values mask_eq_exp_minus_1)
  have m: "\<exists>p. isl12020m_probe no_config_env = Inr p \<and>
        \<not> m_tse p \<and> \<not> m_btse p \<and> \<not> m_btsr p \<and> \<not> m_freq_out p \<and>
        m_freq_out_mode p = 1 \<and>
        regs (m_regmap p) ISL_REG_CSR_INT = 0x01 \<and>
        isl12020m_read_temp p 0 = (- EOPNOTSUPP, 0, p)"
    by (simp add: isl12020m_probe_def no_config_env_def Let_def regmap_read_def next_err_def
        m_set_freq_out_cases fault_at_def kzalloc_isl12020m_data_def quiet_chip_def v
        isl12020m_read_temp_def)
  have i: "\<exists>p. isl12020_probe no_config_env = Inr p \<and>
        config p = \<lparr>freq_out_mode = 0, freq_out_bat = False, tse = False, btse = False,
                    btsr = False\<rparr> \<and>
        regs (regmap p) ISL_REG_CSR_INT = 0x10 \<and>
        isl12020_read_temp p 0 = (- EOPNOTSUPP, 0, p)"
    by (simp add: isl12020_probe_def no_config_env_def Let_def regmap_read_def next_err_def
        set_freq_out_cases fault_at_def kzalloc_isl12020_data_def quiet_chip_def v
        isl12020_read_temp_def)
  from m i show ?thesis by blast
qed

section \<open>The temperature formula\<close>

text \<open>The two bytes of the bulk read, low byte first, as a number.\<close>

lemma uint_le16_to_cpu: "uint (le16_to_cpu [lo, hi]) = uint lo + 256 * uint hi"
proof -
  have lo: "take_bit 8 (uint lo) = uint lo"
    by (rule take_bit_int_eq_self) (use uint_lt2p [of lo] in simp_all)
  have hi: "take_bit 16 (push_bit 8 (uint hi)) = push_bit 8 (uint hi)"
    by (rule take_bit_int_eq_self) (use uint_lt2p [of hi] in \<open>simp_all add: push_bit_eq_mult\<close>)
  have w: "take_bit 16 (uint lo) = uint lo" "take_bit 16 (uint hi) = uint hi"
    by (rule take_bit_int_eq_self; use uint_lt2p [of lo] uint_lt2p [of hi] in simp)+
  have "uint (le16_to_cpu [lo, hi]) = uint lo OR push_bit 8 (uint hi)"
    by (simp add: uint_or unsigned_push_bit_eq unsigned_ucast_eq w hi)
  also have "\<dots> = concat_bit 8 (uint lo) (uint hi)"
    by (simp add: concat_bit_def lo)
  also have "\<dots> = uint lo + 256 * uint hi"
    by (simp add: concat_bit_eq lo push_bit_eq_mult)
  finally show ?thesis .
qed


lemma TKOM_is_next: "ISL_REG_TEMP_TKOL + 1 = ISL_REG_TEMP_TKOM"
  by (simp add: ISL_REG_TEMP_TKOL_def ISL_REG_TEMP_TKOM_def)

lemma bulk_read_temp:
  "fault_at rm 0 = 0 \<Longrightarrow>
   regmap_bulk_read rm ISL_REG_TEMP_TKOL buf 2 =
     (0, [regs rm ISL_REG_TEMP_TKOL, regs rm ISL_REG_TEMP_TKOM],
      rm\<lparr>trace := trace rm @ [Bulk_Read ISL_REG_TEMP_TKOL 2]\<rparr>)"
  by (simp add: regmap_bulk_read_def next_err_def fault_at_def Let_def numeral_2_eq_2
      TKOM_is_next)

text \<open>
  What the two drivers compute. With TSE stored and the bulk read succeeding,
  \<open>isl12020_read_temp\<close> and \<open>isl12020m_read_temp\<close> return 0 and the value
  \<open>raw * 1000 / 2 - 273000\<close>, which is \<open>raw * 500 - 273000\<close>, where \<open>raw\<close> is the
  little-endian value of the two temperature registers. The offset is \<open>CELCIUS0_M\<close> in
  rtc-isl12020.c and \<open>CELCIUS0\<close> in rtc-isl12020m.c.
\<close>

lemma read_temp_formula:
  fixes priv :: isl12020_data and privm :: isl12020m_data
  shows
    "(tse (config priv) \<and> fault_at (regmap priv) 0 = 0 \<longrightarrow>
        (let raw = uint (regs (regmap priv) ISL_REG_TEMP_TKOL) +
                   256 * uint (regs (regmap priv) ISL_REG_TEMP_TKOM)
         in 0 \<le> raw \<and> raw < 65536 \<and>
            fst (isl12020_read_temp priv v) = 0 \<and>
            fst (snd (isl12020_read_temp priv v)) = raw * 1000 div 2 - 273000 \<and>
            fst (snd (isl12020_read_temp priv v)) = raw * 500 - CELCIUS0_M)) \<and>
     (m_tse privm \<and> fault_at (m_regmap privm) 0 = 0 \<longrightarrow>
        (let raw = uint (regs (m_regmap privm) ISL_REG_TEMP_TKOL) +
                   256 * uint (regs (m_regmap privm) ISL_REG_TEMP_TKOM)
         in 0 \<le> raw \<and> raw < 65536 \<and>
            fst (isl12020m_read_temp privm v) = 0 \<and>
            fst (snd (isl12020m_read_temp privm v)) = raw * 1000 div 2 - 273000 \<and>
            fst (snd (isl12020m_read_temp privm v)) = raw * 500 - CELCIUS0_isl12020m))"
proof -
  have b: "0 \<le> uint lo + 256 * uint hi \<and> uint lo + 256 * uint hi < 65536" for lo hi :: u8
    using uint_lt2p [of lo] uint_lt2p [of hi] uint_ge_0 [of lo] uint_ge_0 [of hi] by simp
  have h: "(x * 1000) div 2 = x * 500" for x :: int by simp
  show ?thesis
    by (simp add: isl12020_read_temp_def isl12020m_read_temp_def bulk_read_temp Let_def
        uint_le16_to_cpu MILLI_DEGREE_CELCIUS_def CELCIUS0_M_def CELCIUS0_isl12020m_def b h
        del: le16_to_cpu.simps)
qed

text \<open>
  Raw code 0 yields \<open>-273000\<close>. Raw code 1024 (only bit 2 of the high register set) yields
  \<open>239000\<close>: the bits above the tenth count.
\<close>

lemma read_temp_formula_examples:
  "(let p = (kzalloc_isl12020_data quiet_chip)
              \<lparr>config := (config (kzalloc_isl12020_data quiet_chip))\<lparr>tse := True\<rparr>\<rparr>;
        pm = (kzalloc_isl12020m_data quiet_chip)\<lparr>m_tse := True\<rparr>
    in tse (config p) \<and> fault_at (regmap p) 0 = 0 \<and>
       fst (isl12020_read_temp p 0) = 0 \<and> fst (snd (isl12020_read_temp p 0)) = - 273000 \<and>
       m_tse pm \<and> fault_at (m_regmap pm) 0 = 0 \<and>
       fst (isl12020m_read_temp pm 0) = 0 \<and> fst (snd (isl12020m_read_temp pm 0)) = - 273000) \<and>
   (let p = (kzalloc_isl12020_data (chip_with [(ISL_REG_TEMP_TKOM, 0x04)]))
              \<lparr>config := (config (kzalloc_isl12020_data quiet_chip))\<lparr>tse := True\<rparr>\<rparr>;
        pm = (kzalloc_isl12020m_data (chip_with [(ISL_REG_TEMP_TKOM, 0x04)]))\<lparr>m_tse := True\<rparr>
    in tse (config p) \<and> fault_at (regmap p) 0 = 0 \<and>
       fst (isl12020_read_temp p 0) = 0 \<and> fst (snd (isl12020_read_temp p 0)) = 239000 \<and>
       m_tse pm \<and> fault_at (m_regmap pm) 0 = 0 \<and>
       fst (isl12020m_read_temp pm 0) = 0 \<and> fst (snd (isl12020m_read_temp pm 0)) = 239000)"
proof -
  let ?p0 = "(kzalloc_isl12020_data quiet_chip)
              \<lparr>config := (config (kzalloc_isl12020_data quiet_chip))\<lparr>tse := True\<rparr>\<rparr>"
  let ?pm0 = "(kzalloc_isl12020m_data quiet_chip)\<lparr>m_tse := True\<rparr>"
  let ?p1 = "(kzalloc_isl12020_data (chip_with [(ISL_REG_TEMP_TKOM, 0x04)]))
              \<lparr>config := (config (kzalloc_isl12020_data quiet_chip))\<lparr>tse := True\<rparr>\<rparr>"
  let ?pm1 = "(kzalloc_isl12020m_data (chip_with [(ISL_REG_TEMP_TKOM, 0x04)]))\<lparr>m_tse := True\<rparr>"
  have r0: "regs quiet_chip r = 0" for r by (simp add: quiet_chip_def)
  have r1: "regs (chip_with [(ISL_REG_TEMP_TKOM, 0x04)]) ISL_REG_TEMP_TKOL = 0"
    "regs (chip_with [(ISL_REG_TEMP_TKOM, 0x04)]) ISL_REG_TEMP_TKOM = 4"
    by (simp_all add: regs_chip_with ISL_REG_TEMP_TKOL_def ISL_REG_TEMP_TKOM_def)
  have k: "regmap ?p0 = quiet_chip" "m_regmap ?pm0 = quiet_chip"
    "regmap ?p1 = chip_with [(ISL_REG_TEMP_TKOM, 0x04)]"
    "m_regmap ?pm1 = chip_with [(ISL_REG_TEMP_TKOM, 0x04)]"
    "tse (config ?p0)" "m_tse ?pm0" "tse (config ?p1)" "m_tse ?pm1"
    by (simp_all add: kzalloc_regmap)
  note t0 = read_temp_formula [of ?p0 0 ?pm0]
  note t1 = read_temp_formula [of ?p1 0 ?pm1]
  from t0 t1 show ?thesis
    unfolding k Let_def by (simp add: fault_at_examples r0 r1)
qed

text \<open>
  C3. rtc-isl12020.c is the driver that defines the offset 369000 (\<open>CELCIUS0\<close>), next to
  273000 (\<open>CELCIUS0_M\<close>), but \<open>isl12020_read_temp\<close> subtracts \<open>CELCIUS0_M\<close>. At raw code
  746 (registers \<open>0xEA\<close> and \<open>0x02\<close>) with TSE stored it returns
  \<open>746 * 1000 / 2 - 273000 = 100000\<close>, not \<open>746 * 1000 / 2 - 369000 = 4000\<close>.
\<close>

theorem isl12020_read_temp_746_subtracts_273000:
  "(let p = (kzalloc_isl12020_data
               (chip_with [(ISL_REG_TEMP_TKOL, 0xEA), (ISL_REG_TEMP_TKOM, 0x02)]))
              \<lparr>config := (config (kzalloc_isl12020_data quiet_chip))\<lparr>tse := True\<rparr>\<rparr>
    in uint (le16_to_cpu [regs (regmap p) ISL_REG_TEMP_TKOL,
                          regs (regmap p) ISL_REG_TEMP_TKOM]) = 746 \<and>
       isl12020_read_temp p 0 =
         (0, 100000, p\<lparr>regmap := (regmap p)\<lparr>trace := [Bulk_Read ISL_REG_TEMP_TKOL 2]\<rparr>\<rparr>) \<and>
       fst (snd (isl12020_read_temp p 0)) = 746 * 1000 div 2 - CELCIUS0_M \<and>
       fst (snd (isl12020_read_temp p 0)) \<noteq> 746 * 1000 div 2 - CELCIUS0 \<and>
       CELCIUS0 = 369000 \<and>
       746 * 1000 div 2 - CELCIUS0 = 4000)"
proof -
  let ?c = "chip_with [(ISL_REG_TEMP_TKOL, 0xEA), (ISL_REG_TEMP_TKOM, 0x02)]"
  have r: "regs ?c ISL_REG_TEMP_TKOL = 0xEA" "regs ?c ISL_REG_TEMP_TKOM = 0x02"
    by (simp_all add: regs_chip_with ISL_REG_TEMP_TKOL_def ISL_REG_TEMP_TKOM_def)
  have t: "trace ?c = []" by (simp add: chip_with_def quiet_chip_def)
  show ?thesis
    by (simp add: Let_def isl12020_read_temp_def bulk_read_temp
        kzalloc_regmap fault_at_examples uint_le16_to_cpu r t MILLI_DEGREE_CELCIUS_def
        CELCIUS0_M_def CELCIUS0_def del: le16_to_cpu.simps)
qed

section \<open>The time registers\<close>

text \<open>
  A C \<open>int\<close> in a range of non-negative numbers is one of finitely many words, so a
  property of every such value is decided by trying them all.
\<close>

lemma in_range_cases:
  assumes "in_range x lo hi" and "\<forall>i \<in> set [lo..hi]. P (word_of_int i :: c_int)"
  shows "P x"
proof -
  from assms(1) have "sint x \<in> set [lo..hi]" by (simp add: in_range_def)
  with assms(2) have "P (word_of_int (sint x))" by blast
  then show ?thesis by simp
qed

text \<open>Each field survives its way through the register byte.\<close>

lemma sec_round_trip:
  "in_range x 0 59 \<Longrightarrow> bcd2bin (bin2bcd x AND MASK7BITS) = x"
  by (erule in_range_cases) code_simp

lemma hour_round_trip:
  "in_range x 0 23 \<Longrightarrow> bcd2bin ((bin2bcd x OR ISL_BIT_RTC_HR_MIL) AND MASK6BITS) = x"
  by (erule in_range_cases) code_simp

lemma mday_round_trip:
  "in_range x 1 31 \<Longrightarrow> bcd2bin (bin2bcd x AND MASK6BITS) = x"
  by (erule in_range_cases) code_simp

lemma mon_round_trip:
  "in_range x 0 11 \<Longrightarrow>
   bcd2bin (bin2bcd (x + MONTH_OFFSET) AND MASK5BITS) - MONTH_OFFSET = x"
  by (erule in_range_cases) code_simp

lemma year_round_trip:
  "in_range x 100 199 \<Longrightarrow> bcd2bin (bin2bcd (c_rem x CENTURY_LEN)) + CENTURY_LEN = x"
  by (erule in_range_cases) code_simp

lemma wday_round_trip:
  "in_range x 0 6 \<Longrightarrow> ucast ((ucast (x AND MASK3BITS) :: u8) AND MASK3BITS) = x"
  by (erule in_range_cases) code_simp

text \<open>The nine registers read back after the seven-byte block was stored at register 0.\<close>

lemma read_back_block:
  "map (\<lambda>i. store_block f 0 [b0, b1, b2, b3, b4, b5, b6] (of_nat i)) [0..<9] =
     [b0, b1, b2, b3, b4, b5, b6, f 7, f 8]"
  by (simp add: upt_rec)

lemma set_time_ok:
  assumes "fault_at (regmap priv) 0 = 0" and "fault_at (regmap priv) 1 = 0"
  shows "isl12020_rtc_ops_set_time priv tm =
    (0, priv\<lparr>regmap := (regmap priv)
         \<lparr>trace := trace (regmap priv) @
             [Update_Bits ISL_REG_CSR_INT ISL_BIT_CSR_INT_WRTC ISL_BIT_CSR_INT_WRTC,
              Bulk_Write ISL_REG_RTC_SC
                [bin2bcd (tm_sec tm), bin2bcd (tm_min tm),
                 bin2bcd (tm_hour tm) OR ISL_BIT_RTC_HR_MIL, bin2bcd (tm_mday tm),
                 bin2bcd (tm_mon tm + MONTH_OFFSET), bin2bcd (c_rem (tm_year tm) CENTURY_LEN),
                 ucast (tm_wday tm AND MASK3BITS)]],
          regs := store_block ((regs (regmap priv))
                    (ISL_REG_CSR_INT := (regs (regmap priv) ISL_REG_CSR_INT
                        AND NOT ISL_BIT_CSR_INT_WRTC) OR
                        (ISL_BIT_CSR_INT_WRTC AND ISL_BIT_CSR_INT_WRTC)))
                  ISL_REG_RTC_SC
                [bin2bcd (tm_sec tm), bin2bcd (tm_min tm),
                 bin2bcd (tm_hour tm) OR ISL_BIT_RTC_HR_MIL, bin2bcd (tm_mday tm),
                 bin2bcd (tm_mon tm + MONTH_OFFSET), bin2bcd (c_rem (tm_year tm) CENTURY_LEN),
                 ucast (tm_wday tm AND MASK3BITS)]\<rparr>\<rparr>)"
  using assms
  by (simp add: isl12020_rtc_ops_set_time_def regmap_update_bits_def regmap_bulk_write_def
      next_err_def fault_at_def Let_def del: store_block.simps)

lemma read_time_of_block:
  assumes "fault_at (regmap priv) 0 = 0"
    and "regs (regmap priv) = store_block f 0 [b0, b1, b2, b3, b4, b5, b6]"
  shows "isl12020_rtc_ops_read_time priv tm =
    (0,
     tm\<lparr>tm_sec := bcd2bin (b0 AND MASK7BITS),
        tm_min := bcd2bin (b1 AND MASK7BITS),
        tm_hour := bcd2bin (b2 AND MASK6BITS),
        tm_mday := bcd2bin (b3 AND MASK6BITS),
        tm_mon := bcd2bin (b4 AND MASK5BITS) - MONTH_OFFSET,
        tm_year := bcd2bin b5 + CENTURY_LEN,
        tm_wday := ucast (b6 AND MASK3BITS)\<rparr>,
     priv\<lparr>regmap := (regmap priv)\<lparr>trace := trace (regmap priv) @
                                      [Bulk_Read ISL_REG_RTC_SC 9]\<rparr>\<rparr>)"
proof -
  have n: "unat ISL_REG_CSR_INT + 1 = 9" by (simp add: ISL_REG_CSR_INT_def)
  have buf: "regmap_bulk_read (regmap priv) ISL_REG_RTC_SC (replicate 9 0) 9 =
      (0, [b0, b1, b2, b3, b4, b5, b6, f 7, f 8],
       (regmap priv)\<lparr>trace := trace (regmap priv) @ [Bulk_Read ISL_REG_RTC_SC 9]\<rparr>)"
    using assms(1)
    by (simp add: regmap_bulk_read_def next_err_def fault_at_def Let_def assms(2)
        ISL_REG_RTC_SC_def read_back_block del: store_block.simps)
  show ?thesis
    unfolding isl12020_rtc_ops_read_time_def n buf
    by (simp add: ISL_REG_RTC_SC_def ISL_REG_RTC_MN_def ISL_REG_RTC_HR_def ISL_REG_RTC_DT_def
        ISL_REG_RTC_MO_def ISL_REG_RTC_YR_def ISL_REG_RTC_DW_def)
qed

text \<open>
  C1. For every time in the domain (seconds and minutes 0 to 59, hours 0 to 23, day 1 to
  31, zero-based month 0 to 11, \<open>tm_year\<close> 100 to 199, that is year 0 to 99 of the century
  that starts in 2000, weekday 0 to 6) and every channel whose next three transactions
  succeed: \<open>isl12020_rtc_ops_set_time\<close> returns 0, and \<open>isl12020_rtc_ops_read_time\<close>
  called next returns 0 and fills in exactly the seven fields that were set. Reading
  into the time that was set gives it back unchanged.
\<close>

theorem time_round_trip:
  assumes "valid_time t"
    and "fault_at (regmap priv) 0 = 0" and "fault_at (regmap priv) 1 = 0"
    and "fault_at (regmap priv) 2 = 0"
  shows
    "fst (isl12020_rtc_ops_set_time priv t) = 0 \<and>
     fst (isl12020_rtc_ops_read_time (snd (isl12020_rtc_ops_set_time priv t)) tm0) = 0 \<and>
     fst (snd (isl12020_rtc_ops_read_time (snd (isl12020_rtc_ops_set_time priv t)) tm0)) =
       tm0\<lparr>tm_sec := tm_sec t, tm_min := tm_min t, tm_hour := tm_hour t,
           tm_mday := tm_mday t, tm_mon := tm_mon t, tm_year := tm_year t,
           tm_wday := tm_wday t\<rparr> \<and>
     fst (snd (isl12020_rtc_ops_read_time (snd (isl12020_rtc_ops_set_time priv t)) t)) = t"
proof -
  let ?p1 = "snd (isl12020_rtc_ops_set_time priv t)"
  note s = set_time_ok [OF assms(2,3), of t]
  have f: "fault_at (regmap ?p1) 0 = 0"
    using assms(4) by (simp add: s fault_at_def)
  have r: "regs (regmap ?p1) =
     store_block ((regs (regmap priv))
                    (ISL_REG_CSR_INT := (regs (regmap priv) ISL_REG_CSR_INT
                        AND NOT ISL_BIT_CSR_INT_WRTC) OR
                        (ISL_BIT_CSR_INT_WRTC AND ISL_BIT_CSR_INT_WRTC))) 0
       [bin2bcd (tm_sec t), bin2bcd (tm_min t),
        bin2bcd (tm_hour t) OR ISL_BIT_RTC_HR_MIL, bin2bcd (tm_mday t),
        bin2bcd (tm_mon t + MONTH_OFFSET), bin2bcd (c_rem (tm_year t) CENTURY_LEN),
        ucast (tm_wday t AND MASK3BITS)]"
    by (simp add: s ISL_REG_RTC_SC_def del: store_block.simps)
  from assms(1) have v: "in_range (tm_sec t) 0 59" "in_range (tm_min t) 0 59"
    "in_range (tm_hour t) 0 23" "in_range (tm_mday t) 1 31" "in_range (tm_mon t) 0 11"
    "in_range (tm_year t) 100 199" "in_range (tm_wday t) 0 6"
    by (simp_all add: valid_time_def)
  have rd: "isl12020_rtc_ops_read_time ?p1 tm =
    (0, tm\<lparr>tm_sec := tm_sec t, tm_min := tm_min t, tm_hour := tm_hour t,
           tm_mday := tm_mday t, tm_mon := tm_mon t, tm_year := tm_year t,
           tm_wday := tm_wday t\<rparr>,
     ?p1\<lparr>regmap := (regmap ?p1)\<lparr>trace := trace (regmap ?p1) @
                                      [Bulk_Read ISL_REG_RTC_SC 9]\<rparr>\<rparr>)" for tm
    unfolding read_time_of_block [OF f r]
    by (simp only: sec_round_trip [OF v(1)] sec_round_trip [OF v(2)] hour_round_trip [OF v(3)]
        mday_round_trip [OF v(4)] mon_round_trip [OF v(5)] year_round_trip [OF v(6)]
        wday_round_trip [OF v(7)])
  show ?thesis
    unfolding rd by (simp add: s)
qed

text \<open>
  Thursday, 29 February 2024, 23:59:58, written to a quiet chip and read back. The
  registers hold \<open>58 59 A3 29 02 24 04\<close>: packed decimal, the hour with the 24-hour bit,
  the month one-based.
\<close>

theorem time_round_trip_witness:
  "(let t = \<lparr>tm_sec = 58, tm_min = 59, tm_hour = 23, tm_mday = 29, tm_mon = 1,
             tm_year = 124, tm_wday = 4, tm_yday = 59, tm_isdst = 0\<rparr>;
        p = kzalloc_isl12020_data quiet_chip
    in valid_time t \<and>
       fault_at (regmap p) 0 = 0 \<and> fault_at (regmap p) 1 = 0 \<and> fault_at (regmap p) 2 = 0 \<and>
       fst (isl12020_rtc_ops_set_time p t) = 0 \<and>
       map (regs (regmap (snd (isl12020_rtc_ops_set_time p t)))) [0, 1, 2, 3, 4, 5, 6] =
         [0x58, 0x59, 0xA3, 0x29, 0x02, 0x24, 0x04] \<and>
       fst (isl12020_rtc_ops_read_time (snd (isl12020_rtc_ops_set_time p t)) t) = 0 \<and>
       fst (snd (isl12020_rtc_ops_read_time (snd (isl12020_rtc_ops_set_time p t)) t)) = t)"
proof -
  let ?t = "\<lparr>tm_sec = 58, tm_min = 59, tm_hour = 23, tm_mday = 29, tm_mon = 1,
             tm_year = 124, tm_wday = 4, tm_yday = 59, tm_isdst = 0\<rparr> :: rtc_time"
  let ?p = "kzalloc_isl12020_data quiet_chip"
  have v: "valid_time ?t"
    by (simp add: valid_time_def in_range_def)
  have f: "fault_at (regmap ?p) 0 = 0" "fault_at (regmap ?p) 1 = 0" "fault_at (regmap ?p) 2 = 0"
    by (simp_all add: kzalloc_regmap fault_at_examples)
  have b: "bin2bcd 58 = 0x58" "bin2bcd 59 = 0x59" "bin2bcd 23 OR ISL_BIT_RTC_HR_MIL = 0xA3"
    "bin2bcd 29 = 0x29" "bin2bcd (1 + MONTH_OFFSET) = 0x02"
    "bin2bcd (c_rem 124 CENTURY_LEN) = 0x24" "(ucast (4 AND MASK3BITS :: c_int) :: u8) = 0x04"
    by code_simp+
  have regs: "map (regs (regmap (snd (isl12020_rtc_ops_set_time ?p ?t)))) [0, 1, 2, 3, 4, 5, 6] =
         [0x58, 0x59, 0xA3, 0x29, 0x02, 0x24, 0x04]"
    by (simp add: set_time_ok [OF f(1,2)] b ISL_REG_RTC_SC_def)
  note rt = time_round_trip [OF v f, of ?t]
  from v f regs rt show ?thesis
    unfolding Let_def by blast
qed

end
